theory Spec2Isabelle
  imports Complex_Main
begin

section \<open>JavaScript values\<close>

text \<open>
  The repository is one JavaScript class, \<open>HighlightTracker\<close>, in two versions that
  \<open>src/highlight-tracker.js\<close> holds one after the other: the first version (lines 2-324,
  an interval sampler over a plain object) and the second version (lines 347-1152, an
  \<open>EventEmitter\<close> with a frame-batched sampler over a \<open>WeakMap\<close>). Names of the first
  version carry the suffix \<open>_v1\<close> where the two versions share a name.

  Numbers are IEEE doubles in the source. Timestamps, durations and visibility ratios are
  modelled as reals (no rounding); \<open>NaN\<close> is kept where the source can produce it from
  \<open>undefined\<close> or from a remainder by zero. Infinities are not represented.
\<close>

datatype jsnum = NaN | Num real

datatype jsval =
    Undefined
  | Null
  | JBool bool
  | JNumber jsnum
  | JString string
  | JObject "(string \<times> jsval) list"
  | JFunction

fun typeof :: "jsval \<Rightarrow> string" where
  "typeof Undefined = ''undefined''"
| "typeof Null = ''object''"
| "typeof (JBool b) = ''boolean''"
| "typeof (JNumber n) = ''number''"
| "typeof (JString s) = ''string''"
| "typeof (JObject kvs) = ''object''"
| "typeof JFunction = ''function''"

fun truthy :: "jsval \<Rightarrow> bool" where
  "truthy Undefined = False"
| "truthy Null = False"
| "truthy (JBool b) = b"
| "truthy (JNumber NaN) = False"
| "truthy (JNumber (Num x)) = (x \<noteq> 0)"
| "truthy (JString s) = (s \<noteq> [])"
| "truthy (JObject kvs) = True"
| "truthy JFunction = True"

text \<open>\<open>a < b\<close> and \<open>a > b\<close> and \<open>a >= b\<close> on numbers: every comparison with \<open>NaN\<close> is false.\<close>

fun js_lt :: "jsnum \<Rightarrow> jsnum \<Rightarrow> bool" where
  "js_lt (Num a) (Num b) = (a < b)"
| "js_lt _ _ = False"

fun js_gt :: "jsnum \<Rightarrow> jsnum \<Rightarrow> bool" where
  "js_gt (Num a) (Num b) = (a > b)"
| "js_gt _ _ = False"

fun js_ge :: "jsnum \<Rightarrow> jsnum \<Rightarrow> bool" where
  "js_ge (Num a) (Num b) = (a \<ge> b)"
| "js_ge _ _ = False"

text \<open>
  A property read \<open>obj.key\<close>: \<open>undefined\<close> when the key is absent. A number read for a
  comparison or for arithmetic: the validated options hold numbers there; \<open>undefined\<close>
  converts to \<open>NaN\<close>, and no other conversion is needed by the code modelled here.
\<close>

definition prop_of :: "(string \<times> jsval) list \<Rightarrow> string \<Rightarrow> jsval" where
  "prop_of kvs k = (case map_of kvs k of None \<Rightarrow> Undefined | Some v \<Rightarrow> v)"

fun num_of :: "jsval \<Rightarrow> jsnum" where
  "num_of (JNumber n) = n"
| "num_of _ = NaN"

text \<open>A timestamp field that is \<open>null\<close> or a number, tested for truthiness: \<open>0\<close> is falsy.\<close>

fun live :: "real option \<Rightarrow> bool" where
  "live None = False"
| "live (Some t) = (t \<noteq> 0)"

text \<open>
  An index or a count that the source computes with \<open>Math.floor\<close>, \<open>Math.min\<close> and
  \<open>%\<close>: an integer, or \<open>NaN\<close>.
\<close>

datatype jsidx = IdxNaN | Idx int

text \<open>The remainder \<open>a % b\<close> on integers: the sign of the dividend, \<open>NaN\<close> when \<open>b = 0\<close>.\<close>

definition js_rem :: "int \<Rightarrow> int \<Rightarrow> jsidx" where
  "js_rem a b = (if b = 0 then IdxNaN else Idx (sgn a * (\<bar>a\<bar> mod \<bar>b\<bar>)))"

section \<open>The second version: data model\<close>

text \<open>
  A DOM element, as far as the tracker reads it. Two elements are the same node exactly
  when they are equal; \<open>uid\<close> tells nodes with equal attributes apart.
\<close>

record element =
  uid :: nat
  nodeName :: string
  className :: string
  textContent :: string

text \<open>The record \<open>initializeEngagementData\<close> stores for a paragraph (lines 599-605).\<close>

record engagement =
  visibleRatio :: real
  timeSpent :: real
  weightedTime :: real
  lastUpdate :: "real option"
  inView :: bool

text \<open>An \<open>IntersectionObserverEntry\<close>, as far as \<open>handleIntersection\<close> reads it.\<close>

record intersection_entry =
  target :: element
  intersectionRatio :: real
  isIntersecting :: bool

text \<open>A listener registered on the emitter either returns or throws.\<close>

datatype listener = Returns | Throws

datatype js_error =
    TypeError string
  | RangeError string
  | Error string
  | ListenerError string
  | UnhandledError

text \<open>
  The fields of a tracker (\<open>initializeState\<close>, lines 430-444, and the fields other
  methods add). \<open>engagementData\<close> is the \<open>WeakMap\<close> from elements to their records;
  \<open>highlightId\<close> is \<open>dataset.highlightId\<close> of each element, which the tracker writes.
  A handle (\<open>observer\<close>, \<open>rafId\<close>, \<open>heatmapContainer\<close>, \<open>heatmapUpdateRequest\<close>) is
  modelled by whether it is set.
  \<open>lastFrameTime\<close> is read by \<open>trackingFrame\<close> and assigned nowhere in the class: it is
  \<open>undefined\<close> (\<open>None\<close>) from construction on. \<open>emitted\<close> is the log of the events emitted,
  by name, latest last.
\<close>

record tracker =
  options :: "(string \<times> jsval) list"
  paragraphs :: "element list"
  engagementData :: "element \<Rightarrow> engagement option"
  highlightId :: "element \<Rightarrow> string option"
  observer :: bool
  resizeObserver :: bool
  mutationObserver :: bool
  domListeners :: bool
  rafId :: bool
  tabVisible :: bool
  isTracking :: bool
  trackingStartTime :: real
  lastProcessedIndex :: jsidx
  lastFrameTime :: "real option"
  heatmapVisible :: bool
  heatmapContainer :: bool
  heatmapUpdateRequest :: bool
  scrollListenerAdded :: bool
  resizeTimeout :: bool
  maxEngagement :: real
  listeners :: "string \<Rightarrow> listener list"
  emitted :: "string list"

section \<open>The second version: the emitter\<close>

text \<open>
  \<open>EventEmitter.emit\<close> of the \<open>events\<close> package, which the class extends: an \<open>'error'\<close>
  event with no listener is thrown; otherwise the listeners run in order, and one that
  throws ends the call with its exception. The event is logged when a listener ran or
  none was needed.
\<close>

definition emit :: "string \<Rightarrow> tracker \<Rightarrow> js_error option \<times> tracker" where
  "emit name s =
     (if name = ''error'' \<and> listeners s name = [] then (Some UnhandledError, s)
      else (if Throws \<in> set (listeners s name) then Some (ListenerError name) else None,
            s\<lparr>emitted := emitted s @ [name]\<rparr>))"

section \<open>The second version: visibility reports\<close>

text \<open>
  The two statements \<open>data.timeSpent += delta; data.weightedTime += delta * data.visibleRatio\<close>
  of \<open>handleIntersection\<close> (lines 705-706) and \<open>processBatch\<close> (lines 805-806).
\<close>

definition accrue :: "real \<Rightarrow> engagement \<Rightarrow> engagement" where
  "accrue delta d =
     d\<lparr>timeSpent := timeSpent d + delta,
       weightedTime := weightedTime d + delta * visibleRatio d\<rparr>"

text \<open>
  \<open>if (data.timeSpent > this.maxEngagement) this.maxEngagement = data.timeSpent\<close>
  (lines 709-711 and 809-811).
\<close>

definition raiseMax :: "engagement \<Rightarrow> tracker \<Rightarrow> tracker" where
  "raiseMax d s =
     (if timeSpent d > maxEngagement s then s\<lparr>maxEngagement := timeSpent d\<rparr> else s)"

text \<open>The body of the \<open>entries.forEach\<close> of \<open>handleIntersection\<close> (lines 693-716).\<close>

definition intersectionStep :: "real \<Rightarrow> intersection_entry \<Rightarrow> tracker \<Rightarrow> tracker" where
  "intersectionStep now entry s =
     (case engagementData s (target entry) of
        None \<Rightarrow> s
      | Some d0 \<Rightarrow>
          let d1 = d0\<lparr>visibleRatio := intersectionRatio entry, inView := isIntersecting entry\<rparr>;
              credited = live (lastUpdate d1) \<and> inView d1 \<and> isTracking s;
              d2 = (if credited then accrue (now - the (lastUpdate d1)) d1 else d1);
              s1 = (if credited then raiseMax d2 s else s)
          in s1\<lparr>engagementData := (engagementData s1)(target entry \<mapsto> d2\<lparr>lastUpdate := Some now\<rparr>)\<rparr>)"

text \<open>\<open>handleIntersection\<close> (lines 688-717); \<open>now\<close> is the reading of \<open>performance.now()\<close>.\<close>

definition handleIntersection :: "real \<Rightarrow> intersection_entry list \<Rightarrow> tracker \<Rightarrow> tracker" where
  "handleIntersection now entries s =
     (if \<not> tabVisible s then s else fold (intersectionStep now) entries s)"

section \<open>The second version: starting, stopping, the host's visibility\<close>

text \<open>
  The loop \<open>this.paragraphs.forEach(p => { const data = this.engagementData.get(p);
  if (data) data.lastUpdate = now })\<close> of \<open>handleVisibilityChange\<close> (lines 468-473) and
  of \<open>startTracking\<close> (lines 742-747).
\<close>

definition stamp :: "real \<Rightarrow> element \<Rightarrow> tracker \<Rightarrow> tracker" where
  "stamp now p s =
     (case engagementData s p of
        None \<Rightarrow> s
      | Some d \<Rightarrow> s\<lparr>engagementData := (engagementData s)(p \<mapsto> d\<lparr>lastUpdate := Some now\<rparr>)\<rparr>)"

definition stampAll :: "real \<Rightarrow> tracker \<Rightarrow> tracker" where
  "stampAll now s = fold (stamp now) (paragraphs s) s"

text \<open>
  \<open>handleVisibilityChange\<close> (lines 462-477); \<open>visible\<close> is
  \<open>document.visibilityState === 'visible'\<close>. The first component of the result is the
  exception that leaves the method, if any.
\<close>

definition handleVisibilityChange :: "bool \<Rightarrow> real \<Rightarrow> tracker \<Rightarrow> js_error option \<times> tracker" where
  "handleVisibilityChange visible now s =
     (let s1 = s\<lparr>tabVisible := visible\<rparr>;
          s2 = (if visible then stampAll now s1 else s1)
      in emit ''visibilityChange'' s2)"

text \<open>
  \<open>processBatch\<close> (lines 792-818). \<open>batchStep\<close> is the body of its loop for the counter
  \<open>i\<close>: with \<open>lastProcessedIndex\<close> or the remainder \<open>NaN\<close>, or the index negative,
  \<open>this.paragraphs[index]\<close> is \<open>undefined\<close>, the \<open>WeakMap\<close> has no record for it, and the
  loop continues. A batch size \<open>NaN\<close> runs the body not at all (\<open>0 < NaN\<close> is false).
\<close>

definition batchStep :: "real \<Rightarrow> int \<Rightarrow> tracker \<Rightarrow> tracker" where
  "batchStep now i s =
     (case lastProcessedIndex s of
        IdxNaN \<Rightarrow> s
      | Idx l \<Rightarrow>
          (case js_rem (l + i) (int (length (paragraphs s))) of
             IdxNaN \<Rightarrow> s
           | Idx k \<Rightarrow>
               if k < 0 \<or> int (length (paragraphs s)) \<le> k then s
               else
                 let p = paragraphs s ! nat k in
                 (case engagementData s p of
                    None \<Rightarrow> s
                  | Some d \<Rightarrow>
                      let credited =
                            (js_ge (Num (visibleRatio d))
                               (num_of (prop_of (options s) ''visibilityThreshold''))
                             \<and> live (lastUpdate d));
                          d1 = (if credited then accrue (now - the (lastUpdate d)) d else d);
                          s1 = (if credited then raiseMax d1 s else s)
                      in s1\<lparr>engagementData :=
                               (engagementData s1)(p \<mapsto> d1\<lparr>lastUpdate := Some now\<rparr>)\<rparr>)))"

definition processBatch :: "real \<Rightarrow> jsidx \<Rightarrow> tracker \<Rightarrow> tracker" where
  "processBatch now batchSize s =
     (let s1 = (case batchSize of
                  IdxNaN \<Rightarrow> s
                | Idx n \<Rightarrow> fold (batchStep now) (map int [0..<nat n]) s)
      in s1\<lparr>lastProcessedIndex :=
              (case (lastProcessedIndex s1, batchSize) of
                 (Idx l, Idx n) \<Rightarrow> js_rem (l + n) (int (length (paragraphs s1)))
               | _ \<Rightarrow> IdxNaN)\<rparr>)"

text \<open>
  \<open>Math.min(Math.floor(5 * (targetFrameTime / measuredFrameTime)), this.paragraphs.length)\<close>
  (line 781) with \<open>targetFrameTime = 16\<close>: \<open>NaN\<close> for a measured time \<open>NaN\<close>; for a
  measured time 0 the quotient is \<open>Infinity\<close> and the minimum is the length.
\<close>

fun batchSizeOf :: "jsnum \<Rightarrow> nat \<Rightarrow> jsidx" where
  "batchSizeOf NaN len = IdxNaN"
| "batchSizeOf (Num m) len =
     (if m = 0 then Idx (int len) else Idx (min \<lfloor>5 * (16 / m)\<rfloor> (int len)))"

text \<open>
  \<open>trackingFrame\<close> (lines 772-785). \<open>performance.now() - this.lastFrameTime\<close> is \<open>NaN\<close>
  while \<open>lastFrameTime\<close> is \<open>undefined\<close>.
\<close>

definition trackingFrame :: "real \<Rightarrow> tracker \<Rightarrow> tracker" where
  "trackingFrame now s =
     (if \<not> isTracking s \<or> \<not> tabVisible s then s\<lparr>rafId := True\<rparr>
      else
        let measuredFrameTime = (case lastFrameTime s of None \<Rightarrow> NaN | Some t \<Rightarrow> Num (now - t));
            batchSize = batchSizeOf measuredFrameTime (length (paragraphs s))
        in (processBatch now batchSize s)\<lparr>rafId := True\<rparr>)"

text \<open>\<open>startTracking\<close> (lines 735-751).\<close>

definition startTracking :: "real \<Rightarrow> tracker \<Rightarrow> js_error option \<times> tracker" where
  "startTracking now s =
     (if isTracking s then (None, s)
      else
        let s1 = s\<lparr>isTracking := True, trackingStartTime := now\<rparr>;
            s2 = stampAll now s1;
            s3 = trackingFrame now s2
        in emit ''trackingStarted'' s3)"

text \<open>
  \<open>stopTracking\<close> (lines 756-766). The clock is read only for the payload of the event,
  which the log does not keep.
\<close>

definition stopTracking :: "tracker \<Rightarrow> js_error option \<times> tracker" where
  "stopTracking s =
     (if \<not> isTracking s then (None, s)
      else emit ''trackingStopped'' (s\<lparr>isTracking := False, rafId := False\<rparr>))"

section \<open>The second version: export and heatmap\<close>

text \<open>\<open>Math.round\<close>, subtraction and \<open>Math.max\<close> on numbers: \<open>NaN\<close> in, \<open>NaN\<close> out.\<close>

fun js_round :: "jsnum \<Rightarrow> jsnum" where
  "js_round NaN = NaN"
| "js_round (Num x) = Num (of_int \<lfloor>x + 1 / 2\<rfloor>)"

fun js_sub :: "jsnum \<Rightarrow> jsnum \<Rightarrow> jsnum" where
  "js_sub (Num a) (Num b) = Num (a - b)"
| "js_sub _ _ = NaN"

fun js_max :: "jsnum \<Rightarrow> jsnum \<Rightarrow> jsnum" where
  "js_max (Num a) (Num b) = Num (max a b)"
| "js_max _ _ = NaN"

text \<open>
  \<open>sanitizeText\<close> (lines 1041-1049). Characters are bytes here; \<open>trim\<close> removes the
  ASCII white space (the other Unicode spaces are not represented).
\<close>

definition js_space :: "char \<Rightarrow> bool" where
  "js_space c = (c \<in> set [CHR 0x20, CHR 0x09, CHR 0x0A, CHR 0x0B, CHR 0x0C, CHR 0x0D])"

definition trim :: "string \<Rightarrow> string" where
  "trim t = rev (dropWhile js_space (rev (dropWhile js_space t)))"

definition replaceChar :: "char \<Rightarrow> string \<Rightarrow> string \<Rightarrow> string" where
  "replaceChar c by t = concat (map (\<lambda>x. if x = c then by else [x]) t)"

definition sanitizeText :: "string \<Rightarrow> string" where
  "sanitizeText t =
     (if t = [] then []
      else trim (replaceChar (CHR ''>'') ''&gt;'' (replaceChar (CHR ''<'') ''&lt;'' (take 100 t))))"

text \<open>The assignment \<open>obj[key] = v\<close> on an object: the key keeps its place when present.\<close>

fun assign :: "string \<Rightarrow> 'a \<Rightarrow> (string \<times> 'a) list \<Rightarrow> (string \<times> 'a) list" where
  "assign k v [] = [(k, v)]"
| "assign k v ((k', v') # kvs) = (if k = k' then (k, v) # kvs else (k', v') # assign k v kvs)"

text \<open>A property key read from \<open>dataset.highlightId\<close>: \<open>undefined\<close> is the key \<open>'undefined'\<close>.\<close>

definition keyOf :: "tracker \<Rightarrow> element \<Rightarrow> string" where
  "keyOf s e = (case highlightId s e of None \<Rightarrow> ''undefined'' | Some h \<Rightarrow> h)"

text \<open>
  The body of the \<open>this.paragraphs.forEach\<close> of \<open>exportData\<close> (lines 1000-1030): the
  final time update (lines 1004-1011), which adds \<open>delta * data.visibleRatio\<close> to both
  times and leaves \<open>lastUpdate\<close> as it is, and the entry of the result.
\<close>

definition exportStep ::
  "real \<Rightarrow> element \<Rightarrow> (string \<times> jsval) list \<times> tracker \<Rightarrow> (string \<times> jsval) list \<times> tracker" where
  "exportStep now e acc =
     (let result = fst acc; s = snd acc in
      case engagementData s e of
        None \<Rightarrow> acc
      | Some d \<Rightarrow>
          let d1 =
                (if live (lastUpdate d) \<and> isTracking s
                    \<and> js_ge (Num (visibleRatio d))
                         (num_of (prop_of (options s) ''visibilityThreshold''))
                 then d\<lparr>timeSpent := timeSpent d + (now - the (lastUpdate d)) * visibleRatio d,
                        weightedTime := weightedTime d + (now - the (lastUpdate d)) * visibleRatio d\<rparr>
                 else d);
              adjustedTime =
                js_max (js_sub (Num (timeSpent d1)) (num_of (prop_of (options s) ''minTimeThreshold'')))
                  (Num 0);
              entry =
                JObject
                  [(''rawTime'', JNumber (js_round (Num (timeSpent d1)))),
                   (''adjustedTime'', JNumber (js_round adjustedTime)),
                   (''weightedTime'', JNumber (js_round (Num (weightedTime d1)))),
                   (''text'', JString (sanitizeText (textContent e))),
                   (''visibleRatio'', JNumber (Num (visibleRatio d1))),
                   (''element'',
                      JObject [(''tagName'', JString (nodeName e)),
                               (''className'', JString (className e))])]
          in (assign (keyOf s e) entry result,
              s\<lparr>engagementData := (engagementData s)(e \<mapsto> d1)\<rparr>))"

text \<open>The keys of such an entry, in the order of the object literal (lines 1019-1029).\<close>

definition exportKeys :: "string list" where
  "exportKeys =
     [''rawTime'', ''adjustedTime'', ''weightedTime'', ''text'', ''visibleRatio'', ''element'']"

text \<open>\<open>exportData\<close> (lines 996-1033): the exported object and the tracker it leaves.\<close>

definition exportData :: "real \<Rightarrow> tracker \<Rightarrow> (string \<times> jsval) list \<times> tracker" where
  "exportData now s = fold (exportStep now) (paragraphs s) ([], s)"

text \<open>
  \<open>handleUnload\<close> (lines 483-493): the export and the \<open>'unload'\<close> event under a
  \<open>try\<close> whose \<open>catch\<close> is empty.
\<close>

definition handleUnload :: "real \<Rightarrow> tracker \<Rightarrow> tracker" where
  "handleUnload now s =
     (if isTracking s then snd (emit ''unload'' (snd (exportData now s))) else s)"





text \<open>\<open>updateHeatmap\<close> (lines 849-855): requests one frame unless one is requested.\<close>

definition updateHeatmap :: "tracker \<Rightarrow> tracker" where
  "updateHeatmap s = (if heatmapUpdateRequest s then s else s\<lparr>heatmapUpdateRequest := True\<rparr>)"

section \<open>The second version: changes of the document\<close>

text \<open>Decimal digits of a natural number, for the template strings that print one.\<close>

fun show_nat :: "nat \<Rightarrow> string" where
  "show_nat n =
     (if n < 10 then [char_of (48 + n)] else show_nat (n div 10) @ [char_of (48 + n mod 10)])"

definition show_int :: "int \<Rightarrow> string" where
  "show_int i = (if i < 0 then CHR ''-'' # show_nat (nat (- i)) else show_nat (nat i))"

text \<open>A \<open>MutationRecord\<close> of type \<open>childList\<close>.\<close>

record mutation =
  addedNodes :: "element list"
  removedNodes :: "element list"

text \<open>
  A step of a method that may throw: the exception, if any, and the tracker at that
  point. \<open>andThen\<close> runs the second step unless the first threw.
\<close>

type_synonym step = "tracker \<Rightarrow> js_error option \<times> tracker"

definition andThen :: "step \<Rightarrow> step \<Rightarrow> step" where
  "andThen f g s = (case f s of (Some e, s') \<Rightarrow> (Some e, s') | (None, s') \<Rightarrow> g s')"

fun steps :: "step list \<Rightarrow> step" where
  "steps [] s = (None, s)"
| "steps (f # fs) s = andThen f (steps fs) s"

text \<open>
  The body of \<open>mutation.addedNodes.forEach\<close> (lines 1118-1133). \<open>dateNow\<close> is the reading
  of \<open>Date.now()\<close>, \<open>now\<close> that of \<open>performance.now()\<close>. With \<open>this.observer\<close> null,
  \<open>this.observer.observe(node)\<close> throws after the record is stored.
\<close>

definition addedStep :: "nat \<Rightarrow> real \<Rightarrow> element \<Rightarrow> step" where
  "addedStep dateNow now node s =
     (if nodeName node = ''P'' then
        let ident = ''p-'' @ show_nat dateNow @ ''-'' @ show_nat (length (paragraphs s));
            s1 = s\<lparr>highlightId := (highlightId s)(node \<mapsto> ident),
                   paragraphs := paragraphs s @ [node],
                   engagementData := (engagementData s)(node \<mapsto>
                     \<lparr>visibleRatio = 0, timeSpent = 0, weightedTime = 0,
                      lastUpdate = (if isTracking s then Some now else None),
                      inView = False\<rparr>)\<rparr>
        in if observer s1 then (None, s1)
           else (Some (TypeError ''Cannot read properties of null''), s1)
      else (None, s))"

text \<open>\<open>Array.prototype.findIndex\<close> and \<open>splice(index, 1)\<close>.\<close>

fun findIndex :: "('a \<Rightarrow> bool) \<Rightarrow> 'a list \<Rightarrow> nat option" where
  "findIndex P [] = None"
| "findIndex P (x # xs) = (if P x then Some 0 else map_option Suc (findIndex P xs))"

definition splice1 :: "nat \<Rightarrow> 'a list \<Rightarrow> 'a list" where
  "splice1 i xs = take i xs @ drop (Suc i) xs"

text \<open>
  The body of \<open>mutation.removedNodes.forEach\<close> (lines 1136-1145): the paragraph found
  by its \<open>highlightId\<close> leaves the list and the node's record is deleted;
  \<open>maxEngagement\<close> is not touched.
\<close>

definition removedStep :: "element \<Rightarrow> tracker \<Rightarrow> tracker" where
  "removedStep node s =
     (if nodeName node = ''P'' \<and> highlightId s node \<noteq> None \<and> highlightId s node \<noteq> Some []
      then
        (case findIndex (\<lambda>p. highlightId s p = highlightId s node) (paragraphs s) of
           None \<Rightarrow> s
         | Some i \<Rightarrow>
             s\<lparr>paragraphs := splice1 i (paragraphs s),
               engagementData := (engagementData s)(node := None)\<rparr>)
      else s)"

text \<open>\<open>handleDOMChanges\<close> (lines 1116-1151).\<close>

definition handleDOMChanges :: "nat \<Rightarrow> real \<Rightarrow> mutation \<Rightarrow> step" where
  "handleDOMChanges dateNow now m =
     steps (map (addedStep dateNow now) (addedNodes m)
            @ [\<lambda>s. (None, fold removedStep (removedNodes m) s),
               \<lambda>s. (None, if heatmapVisible s then updateHeatmap s else s)])"

section \<open>The second version: teardown\<close>

text \<open>
  The calls of \<open>destroy\<close> into the browser. Whether one of them throws is not the
  tracker's to decide: \<open>faulty\<close> says which do.
\<close>

datatype teardown =
    DisconnectObserver
  | DisconnectResize
  | DisconnectMutation
  | RemoveListeners
  | RemoveHeatmap

definition external :: "bool \<Rightarrow> (tracker \<Rightarrow> tracker) \<Rightarrow> step" where
  "external fails upd s =
     (if fails then (Some (Error ''external call failed''), s) else (None, upd s))"

text \<open>The \<open>try\<close> block of \<open>destroy\<close> (lines 1056-1105).\<close>

definition destroyBody :: "(teardown \<Rightarrow> bool) \<Rightarrow> step" where
  "destroyBody faulty =
     steps
       [stopTracking,
        \<lambda>s. if observer s
             then external (faulty DisconnectObserver) (\<lambda>s. s\<lparr>observer := False\<rparr>) s
             else (None, s),
        \<lambda>s. if resizeObserver s
             then external (faulty DisconnectResize) (\<lambda>s. s\<lparr>resizeObserver := False\<rparr>) s
             else (None, s),
        \<lambda>s. if mutationObserver s
             then external (faulty DisconnectMutation) (\<lambda>s. s\<lparr>mutationObserver := False\<rparr>) s
             else (None, s),
        external (faulty RemoveListeners) (\<lambda>s. s\<lparr>domListeners := False\<rparr>),
        \<lambda>s. if heatmapContainer s then external (faulty RemoveHeatmap) (\<lambda>s. s) s else (None, s),
        \<lambda>s. (None, s\<lparr>heatmapContainer := False, resizeTimeout := False, paragraphs := [],
                      engagementData := Map.empty, heatmapUpdateRequest := False\<rparr>),
        emit ''destroyed'']"

text \<open>
  \<open>destroy\<close> (lines 1054-1109): the \<open>catch\<close> emits \<open>'error'\<close>; what that call throws
  leaves the method.
\<close>

definition destroy :: "(teardown \<Rightarrow> bool) \<Rightarrow> step" where
  "destroy faulty s =
     (case destroyBody faulty s of
        (None, s') \<Rightarrow> (None, s')
      | (Some e, s') \<Rightarrow> emit ''error'' s')"

section \<open>The second version: construction\<close>

text \<open>An entry of the validation schema (lines 364-377).\<close>

record config =
  type_c :: string
  min_c :: "int option"
  max_c :: "int option"
  default_c :: jsval

definition validationSchema :: "(string \<times> config) list" where
  "validationSchema =
     [(''minTimeThreshold'',
         \<lparr>type_c = ''number'', min_c = Some 0, max_c = None, default_c = JNumber (Num 1000)\<rparr>),
      (''samplingRate'',
         \<lparr>type_c = ''number'', min_c = Some 10, max_c = Some 1000, default_c = JNumber (Num 200)\<rparr>),
      (''visibilityThreshold'',
         \<lparr>type_c = ''number'', min_c = Some 0, max_c = Some 1, default_c = JNumber (Num (1 / 2))\<rparr>),
      (''colors'',
         \<lparr>type_c = ''object'', min_c = None, max_c = None,
          default_c = JObject [(''low'', JString ''#C6E2FF''), (''medium'', JString ''#4F97FF''),
                               (''high'', JString ''#0047AB'')]\<rparr>),
      (''heatmapContainer'',
         \<lparr>type_c = ''string'', min_c = None, max_c = None, default_c = Null\<rparr>)]"

text \<open>The object spread \<open>{ ...a, ...b }\<close>; a spread of a value that is no object adds nothing.\<close>

fun entriesOf :: "jsval \<Rightarrow> (string \<times> jsval) list" where
  "entriesOf (JObject kvs) = kvs"
| "entriesOf _ = []"

definition spread :: "jsval \<Rightarrow> jsval \<Rightarrow> jsval" where
  "spread a b = JObject (fold (\<lambda>kv acc. assign (fst kv) (snd kv) acc) (entriesOf b) (entriesOf a))"

text \<open>
  The body of the loop of \<open>validateOptions\<close> (lines 393-421) for one key of the schema:
  the exception it throws, or the value it stores. At the range checks of a schema whose
  bounds stand on \<open>'number'\<close> entries the value is a number: the type check before them
  threw otherwise.
\<close>

definition validateOption :: "(string \<times> jsval) list \<Rightarrow> string \<times> config \<Rightarrow> js_error + jsval" where
  "validateOption input kc =
     (let key = fst kc; cfg = snd kc; v0 = prop_of input key in
      if type_c cfg = ''object'' \<and> truthy v0 \<and> typeof v0 \<noteq> ''object''
      then Inl (TypeError (key @ '' must be an object''))
      else
        let v = (if type_c cfg = ''object'' \<and> truthy v0 then spread (default_c cfg) v0
                 else if v0 = Undefined \<or> v0 = Null then default_c cfg else v0)
        in if v \<noteq> Null \<and> type_c cfg \<noteq> ''object'' \<and> typeof v \<noteq> type_c cfg
           then Inl (TypeError (key @ '' must be '' @ type_c cfg))
           else if min_c cfg \<noteq> None \<and> v \<noteq> Null
                   \<and> js_lt (num_of v) (Num (of_int (the (min_c cfg))))
           then Inl (RangeError (key @ '' cannot be less than '' @ show_int (the (min_c cfg))))
           else if max_c cfg \<noteq> None \<and> v \<noteq> Null
                   \<and> js_gt (num_of v) (Num (of_int (the (max_c cfg))))
           then Inl (RangeError (key @ '' cannot be greater than '' @ show_int (the (max_c cfg))))
           else Inr v)"

text \<open>\<open>validateOptions\<close> (lines 390-424): the first exception, or the validated options.\<close>

fun validateOptions ::
  "(string \<times> jsval) list \<Rightarrow> (string \<times> config) list \<Rightarrow> js_error + (string \<times> jsval) list" where
  "validateOptions input [] = Inr []"
| "validateOptions input (kc # rest) =
     (case validateOption input kc of
        Inl e \<Rightarrow> Inl e
      | Inr v \<Rightarrow>
          (case validateOptions input rest of
             Inl e \<Rightarrow> Inl e
           | Inr opts \<Rightarrow> Inr ((fst kc, v) # opts)))"

text \<open>
  \<open>initializeState\<close> (lines 430-444) with the fields it leaves \<open>undefined\<close>, on a fresh
  emitter; \<open>dataset\<close> is the \<open>highlightId\<close> the document's elements carry already.
\<close>

definition initializeState :: "(string \<times> jsval) list \<Rightarrow> (element \<Rightarrow> string option) \<Rightarrow> tracker" where
  "initializeState opts dataset =
     \<lparr>options = opts, paragraphs = [], engagementData = Map.empty, highlightId = dataset,
      observer = False, resizeObserver = False, mutationObserver = False, domListeners = False,
      rafId = False, tabVisible = True, isTracking = False, trackingStartTime = 0,
      lastProcessedIndex = Idx 0, lastFrameTime = None, heatmapVisible = False,
      heatmapContainer = False, heatmapUpdateRequest = False, scrollListenerAdded = False,
      resizeTimeout = False, maxEngagement = 0, listeners = (\<lambda>name. []), emitted = []\<rparr>"

text \<open>
  The constructor (lines 360-382): an exception of \<open>validateOptions\<close> leaves it, and
  then there is no tracker.
\<close>

definition newTracker :: "(string \<times> jsval) list \<Rightarrow> (element \<Rightarrow> string option) \<Rightarrow> js_error + tracker" where
  "newTracker input dataset =
     (case validateOptions input validationSchema of
        Inl e \<Rightarrow> Inl e
      | Inr opts \<Rightarrow> Inr ((initializeState opts dataset)\<lparr>domListeners := True\<rparr>))"

text \<open>
  The values an entry of the schema (lines 364-377) is written for: the option is absent
  (\<open>undefined\<close> or \<open>null\<close>, the default is taken), or it is of the entry's type and,
  for a number, within the entry's bounds. \<open>admitted input key\<close> says so of the option
  \<open>key\<close> of the constructor's argument.
\<close>

fun admits :: "config \<Rightarrow> jsval \<Rightarrow> bool" where
  "admits cfg Undefined = True"
| "admits cfg Null = True"
| "admits cfg (JNumber (Num x)) =
     (type_c cfg = ''number''
      \<and> (case min_c cfg of None \<Rightarrow> True | Some m \<Rightarrow> of_int m \<le> x)
      \<and> (case max_c cfg of None \<Rightarrow> True | Some m \<Rightarrow> x \<le> of_int m))"
| "admits cfg (JNumber NaN) = False"
| "admits cfg (JString str) = (type_c cfg = ''string'')"
| "admits cfg (JObject kvs) = (type_c cfg = ''object'')"
| "admits cfg (JBool b) = False"
| "admits cfg JFunction = False"

definition admitted :: "(string \<times> jsval) list \<Rightarrow> string \<Rightarrow> bool" where
  "admitted input key =
     (case map_of validationSchema key of
        None \<Rightarrow> False
      | Some cfg \<Rightarrow> admits cfg (prop_of input key))"

text \<open>\<open>EventEmitter.on\<close>: the listener joins the event's list.\<close>

definition addListener :: "string \<Rightarrow> listener \<Rightarrow> tracker \<Rightarrow> tracker" where
  "addListener name l s = s\<lparr>listeners := (listeners s)(name := listeners s name @ [l])\<rparr>"

section \<open>The second version: initialisation\<close>

text \<open>\<open>cleanupPrevious\<close> (lines 518-544).\<close>

definition cleanupPrevious :: step where
  "cleanupPrevious =
     steps
       [\<lambda>s. if isTracking s then stopTracking s else (None, s),
        \<lambda>s. (None,
              s\<lparr>observer := False, resizeObserver := False,
                heatmapContainer :=
                  (heatmapContainer s \<and> truthy (prop_of (options s) ''heatmapContainer'')),
                paragraphs := [], engagementData := Map.empty, maxEngagement := 0\<rparr>)]"

text \<open>
  The loop of \<open>getParagraphs\<close> (lines 584-588) for the paragraph at \<open>index\<close>, and
  the loop of \<open>initializeEngagementData\<close> (lines 598-606).
\<close>

definition assignId :: "nat \<Rightarrow> nat \<times> element \<Rightarrow> tracker \<Rightarrow> tracker" where
  "assignId dateNow ip s =
     (if highlightId s (snd ip) = None \<or> highlightId s (snd ip) = Some [] then
        s\<lparr>highlightId := (highlightId s)(snd ip \<mapsto>
             ''p-'' @ show_nat dateNow @ ''-'' @ show_nat (fst ip))\<rparr>
      else s)"

definition emptyRecord :: engagement where
  "emptyRecord =
     \<lparr>visibleRatio = 0, timeSpent = 0, weightedTime = 0, lastUpdate = None, inView = False\<rparr>"

definition register :: "element \<Rightarrow> tracker \<Rightarrow> tracker" where
  "register p s = s\<lparr>engagementData := (engagementData s)(p \<mapsto> emptyRecord)\<rparr>"

definition initializeEngagementData :: "tracker \<Rightarrow> tracker" where
  "initializeEngagementData s = fold register (paragraphs s) s"

text \<open>
  \<open>init\<close> (lines 499-512). \<open>found\<close> is what the document answers for the container:
  nothing (\<open>validateContainer\<close> throws), or the \<open>p\<close> elements under it; \<open>heatmapFound\<close>
  is whether the selector of the option \<open>heatmapContainer\<close> finds an element. The
  observers are taken to attach without an exception.
\<close>

definition initBody :: "nat \<Rightarrow> element list option \<Rightarrow> bool \<Rightarrow> step" where
  "initBody dateNow found heatmapFound =
     andThen cleanupPrevious
       (\<lambda>s. case found of
               None \<Rightarrow> (Some (Error ''Container not found''), s)
             | Some ps \<Rightarrow>
                 steps
                   [\<lambda>s. if ps = [] then emit ''warning'' s else (None, s),
                    \<lambda>s. (None, (fold (assignId dateNow) (enumerate 0 ps) s)\<lparr>paragraphs := ps\<rparr>),
                    \<lambda>s. (None, initializeEngagementData s),
                    \<lambda>s. (None, s\<lparr>observer := True, resizeObserver := True,
                                  mutationObserver := True\<rparr>),
                    \<lambda>s. if truthy (prop_of (options s) ''heatmapContainer'')
                         then (if heatmapFound then (None, s\<lparr>heatmapContainer := True\<rparr>)
                               else (Some (Error ''Heatmap container not found''), s))
                         else (None, s),
                    emit ''ready''] s)"

definition init :: "nat \<Rightarrow> element list option \<Rightarrow> bool \<Rightarrow> step" where
  "init dateNow found heatmapFound s =
     (case initBody dateNow found heatmapFound s of
        (None, s') \<Rightarrow> (None, s')
      | (Some e, s') \<Rightarrow>
          (case emit ''error'' s' of
             (None, s'') \<Rightarrow> (Some e, s'')
           | (Some e', s'') \<Rightarrow> (Some e', s'')))"

section \<open>The second version: showing the heatmap\<close>

text \<open>
  \<open>createHeatmap\<close> (lines 823-843), \<open>hideHeatmap\<close> (lines 978-990) and the frame
  callback that \<open>updateHeatmap\<close> requests (lines 851-854, with the scroll listener of
  lines 969-972).
\<close>

definition createHeatmap :: step where
  "createHeatmap s =
     emit ''heatmapCreated'' ((updateHeatmap (s\<lparr>heatmapContainer := True\<rparr>))\<lparr>heatmapVisible := True\<rparr>)"

definition hideHeatmap :: step where
  "hideHeatmap s =
     (if heatmapContainer s then emit ''heatmapHidden'' (s\<lparr>heatmapVisible := False\<rparr>) else (None, s))"

definition heatmapFrame :: "tracker \<Rightarrow> tracker" where
  "heatmapFrame s =
     s\<lparr>scrollListenerAdded := (scrollListenerAdded s \<or> heatmapContainer s),
       heatmapUpdateRequest := False\<rparr>"

section \<open>The second version: runs of the engine\<close>

text \<open>
  What can happen to an initialised tracker: the calls of its public methods and the
  callbacks of the browser, each with the clock readings it makes. \<open>Batch\<close> is a call of
  \<open>processBatch\<close> with any batch size; \<open>Frame\<close> is the animation frame.
\<close>

datatype event =
    Report real "intersection_entry list"
  | Frame real
  | Batch real jsidx
  | Export real
  | Unload real
  | Start real
  | Stop real
  | TabChange bool real
  | DomChange nat real mutation
  | Listen string listener
  | ShowHeatmap real
  | HideHeatmap real
  | HeatmapFrame real
  | Init nat "element list option" bool
  | Destroy "teardown \<Rightarrow> bool"

text \<open>An exception that leaves a method ends that call; the tracker keeps what the call did.\<close>

fun exec :: "event \<Rightarrow> tracker \<Rightarrow> tracker" where
  "exec (Report now entries) s = handleIntersection now entries s"
| "exec (Frame now) s = trackingFrame now s"
| "exec (Batch now n) s = processBatch now n s"
| "exec (Export now) s = snd (exportData now s)"
| "exec (Unload now) s = handleUnload now s"
| "exec (Start now) s = snd (startTracking now s)"
| "exec (Stop now) s = snd (stopTracking s)"
| "exec (TabChange visible now) s = snd (handleVisibilityChange visible now s)"
| "exec (DomChange dateNow now m) s = snd (handleDOMChanges dateNow now m s)"
| "exec (Listen name l) s = addListener name l s"
| "exec (ShowHeatmap now) s = snd (createHeatmap s)"
| "exec (HideHeatmap now) s = snd (hideHeatmap s)"
| "exec (HeatmapFrame now) s = heatmapFrame s"
| "exec (Init dateNow found heatmapFound) s = snd (init dateNow found heatmapFound s)"
| "exec (Destroy faulty) s = snd (destroy faulty s)"

fun timeOf :: "event \<Rightarrow> real option" where
  "timeOf (Report now entries) = Some now"
| "timeOf (Frame now) = Some now"
| "timeOf (Batch now n) = Some now"
| "timeOf (Export now) = Some now"
| "timeOf (Unload now) = Some now"
| "timeOf (Start now) = Some now"
| "timeOf (Stop now) = Some now"
| "timeOf (TabChange visible now) = Some now"
| "timeOf (DomChange dateNow now m) = Some now"
| "timeOf (Listen name l) = None"
| "timeOf (ShowHeatmap now) = Some now"
| "timeOf (HideHeatmap now) = Some now"
| "timeOf (HeatmapFrame now) = Some now"
| "timeOf (Init dateNow found heatmapFound) = None"
| "timeOf (Destroy faulty) = None"

text \<open>
  What the browser guarantees: \<open>performance.now()\<close> never goes back (each reading is at
  least \<open>clock\<close>, the latest before it), and an intersection ratio lies in \<open>[0, 1]\<close>.
\<close>

fun ratiosOk :: "event \<Rightarrow> bool" where
  "ratiosOk (Report now entries) =
     list_all (\<lambda>e. 0 \<le> intersectionRatio e \<and> intersectionRatio e \<le> 1) entries"
| "ratiosOk _ = True"

fun wellTimed :: "real \<Rightarrow> event list \<Rightarrow> bool" where
  "wellTimed clock [] = True"
| "wellTimed clock (ev # evs) =
     (ratiosOk ev \<and>
      (case timeOf ev of
         None \<Rightarrow> wellTimed clock evs
       | Some now \<Rightarrow> clock \<le> now \<and> wellTimed now evs))"

definition run :: "event list \<Rightarrow> tracker \<Rightarrow> tracker" where
  "run evs s = fold exec evs s"


section \<open>The first version\<close>

text \<open>
  The record \<open>init\<close> stores for a paragraph (lines 61-67) and the fields of the tracker
  (lines 10-26). \<open>engagementData\<close> is a plain object keyed by \<open>highlightId\<close>, in insertion
  order. Readings of \<open>Date.now()\<close> are modelled as reals; the readings one call of a
  method makes are taken to be one instant.
\<close>

record data_v1 =
  element_v1 :: element
  timeSpent_v1 :: real
  inView_v1 :: bool
  lastViewTimestamp :: "real option"
  index_v1 :: nat

record tracker_v1 =
  options_v1 :: "(string \<times> jsval) list"
  paragraphs_v1 :: "element list"
  engagementData_v1 :: "(string \<times> data_v1) list"
  highlightId_v1 :: "element \<Rightarrow> string option"
  observer_v1 :: bool
  isTracking_v1 :: bool
  trackingInterval :: bool
  scrollbarCreated :: bool

text \<open>\<open>a || b\<close>.\<close>

definition orElse :: "jsval \<Rightarrow> jsval \<Rightarrow> jsval" where
  "orElse a b = (if truthy a then a else b)"

text \<open>
  The constructor (lines 3-36). The numeric options are taken to be numbers or absent
  (a string would be converted before \<open>< 0\<close>; that conversion is not modelled).
\<close>

definition newTracker_v1 ::
  "(string \<times> jsval) list \<Rightarrow> (element \<Rightarrow> string option) \<Rightarrow> js_error + tracker_v1" where
  "newTracker_v1 opts dataset =
     (if truthy (prop_of opts ''minTimeThreshold'')
         \<and> js_lt (num_of (prop_of opts ''minTimeThreshold'')) (Num 0)
      then Inl (Error ''minTimeThreshold must be non-negative'')
      else if truthy (prop_of opts ''samplingRate'')
              \<and> js_lt (num_of (prop_of opts ''samplingRate'')) (Num 0)
      then Inl (Error ''samplingRate must be non-negative'')
      else
        Inr \<lparr>options_v1 =
                [(''minTimeThreshold'', orElse (prop_of opts ''minTimeThreshold'') (JNumber (Num 1000))),
                 (''samplingRate'', orElse (prop_of opts ''samplingRate'') (JNumber (Num 200))),
                 (''heatmapContainer'', orElse (prop_of opts ''heatmapContainer'') Null),
                 (''heatmapHeight'', orElse (prop_of opts ''heatmapHeight'') (JNumber (Num 30))),
                 (''colors'',
                    orElse (prop_of opts ''colors'')
                      (JObject [(''low'', JString ''#C6E2FF''), (''medium'', JString ''#4F97FF''),
                                (''high'', JString ''#0047AB'')]))],
              paragraphs_v1 = [], engagementData_v1 = [], highlightId_v1 = dataset,
              observer_v1 = False, isTracking_v1 = False, trackingInterval = False,
              scrollbarCreated = False\<rparr>)"

text \<open>\<open>init\<close> (lines 42-85); \<open>found\<close> is as for the second version.\<close>

definition register_v1 :: "nat \<times> element \<Rightarrow> tracker_v1 \<Rightarrow> tracker_v1" where
  "register_v1 ip s =
     (let ident = ''p-'' @ show_nat (fst ip) in
      s\<lparr>highlightId_v1 := (highlightId_v1 s)(snd ip \<mapsto> ident),
        engagementData_v1 :=
          assign ident
            \<lparr>element_v1 = snd ip, timeSpent_v1 = 0, inView_v1 = False,
             lastViewTimestamp = None, index_v1 = fst ip\<rparr>
            (engagementData_v1 s)\<rparr>)"

definition init_v1 :: "element list option \<Rightarrow> tracker_v1 \<Rightarrow> tracker_v1" where
  "init_v1 found s =
     (case found of
        None \<Rightarrow> s
      | Some ps \<Rightarrow> (fold register_v1 (enumerate 0 ps) (s\<lparr>paragraphs_v1 := ps\<rparr>))\<lparr>observer_v1 := True\<rparr>)"

text \<open>A change of the record under one key of the object.\<close>

definition modify :: "string \<Rightarrow> ('a \<Rightarrow> 'a) \<Rightarrow> (string \<times> 'a) list \<Rightarrow> (string \<times> 'a) list" where
  "modify k f kvs = map (\<lambda>kv. if fst kv = k then (fst kv, f (snd kv)) else kv) kvs"

text \<open>The body of the \<open>entries.forEach\<close> of \<open>handleIntersection\<close> (lines 94-115).\<close>

definition intersectionStep_v1 :: "real \<Rightarrow> intersection_entry \<Rightarrow> tracker_v1 \<Rightarrow> tracker_v1" where
  "intersectionStep_v1 now entry s =
     (let ident = (case highlightId_v1 s (target entry) of None \<Rightarrow> ''undefined'' | Some h \<Rightarrow> h) in
      case map_of (engagementData_v1 s) ident of
        None \<Rightarrow> s
      | Some d \<Rightarrow>
          let isNowVisible = (intersectionRatio entry \<ge> 1 / 2) in
          if isNowVisible \<and> \<not> inView_v1 d then
            s\<lparr>engagementData_v1 :=
                modify ident (\<lambda>d. d\<lparr>inView_v1 := True, lastViewTimestamp := Some now\<rparr>)
                  (engagementData_v1 s)\<rparr>
          else if \<not> isNowVisible \<and> inView_v1 d then
            s\<lparr>engagementData_v1 :=
                modify ident
                  (\<lambda>d. if live (lastViewTimestamp d)
                       then d\<lparr>inView_v1 := False,
                              timeSpent_v1 := timeSpent_v1 d + (now - the (lastViewTimestamp d)),
                              lastViewTimestamp := None\<rparr>
                       else d\<lparr>inView_v1 := False\<rparr>)
                  (engagementData_v1 s)\<rparr>
          else s)"

definition handleIntersection_v1 :: "real \<Rightarrow> intersection_entry list \<Rightarrow> tracker_v1 \<Rightarrow> tracker_v1" where
  "handleIntersection_v1 now entries s =
     (if \<not> isTracking_v1 s then s else fold (intersectionStep_v1 now) entries s)"

text \<open>\<open>startTracking\<close> (lines 121-128).\<close>

definition startTracking_v1 :: "tracker_v1 \<Rightarrow> tracker_v1" where
  "startTracking_v1 s =
     (if isTracking_v1 s then s else s\<lparr>isTracking_v1 := True, trackingInterval := True\<rparr>)"

text \<open>\<open>stopTracking\<close> (lines 133-149).\<close>

definition flush_v1 :: "real \<Rightarrow> data_v1 \<Rightarrow> data_v1" where
  "flush_v1 now d =
     (if inView_v1 d \<and> live (lastViewTimestamp d)
      then d\<lparr>timeSpent_v1 := timeSpent_v1 d + (now - the (lastViewTimestamp d)),
             lastViewTimestamp := None, inView_v1 := False\<rparr>
      else d)"

definition stopTracking_v1 :: "real \<Rightarrow> tracker_v1 \<Rightarrow> tracker_v1" where
  "stopTracking_v1 now s =
     (if \<not> isTracking_v1 s then s
      else s\<lparr>isTracking_v1 := False, trackingInterval := False,
             engagementData_v1 := map (\<lambda>kv. (fst kv, flush_v1 now (snd kv))) (engagementData_v1 s)\<rparr>)"

text \<open>\<open>checkVisibility\<close> (lines 154-165), the callback of the interval.\<close>

definition sample_v1 :: "real \<Rightarrow> data_v1 \<Rightarrow> data_v1" where
  "sample_v1 now d =
     (if inView_v1 d \<and> live (lastViewTimestamp d)
      then d\<lparr>timeSpent_v1 := timeSpent_v1 d + (now - the (lastViewTimestamp d)),
             lastViewTimestamp := Some now\<rparr>
      else d)"

definition checkVisibility :: "real \<Rightarrow> tracker_v1 \<Rightarrow> tracker_v1" where
  "checkVisibility now s =
     s\<lparr>engagementData_v1 := map (\<lambda>kv. (fst kv, sample_v1 now (snd kv))) (engagementData_v1 s)\<rparr>"

text \<open>
  \<open>exportData\<close> (lines 272-294). \<open>Math.max\<close> of no argument is \<open>-Infinity\<close>, here
  \<open>None\<close>. The division is reached with a positive divisor only.
\<close>

fun js_div :: "jsnum \<Rightarrow> jsnum \<Rightarrow> jsnum" where
  "js_div (Num a) (Num b) = (if b = 0 then NaN else Num (a / b))"
| "js_div _ _ = NaN"

fun maxOf :: "real list \<Rightarrow> real option" where
  "maxOf [] = None"
| "maxOf (x # xs) = Some (fold max xs x)"

definition exportEntry_v1 :: "data_v1 \<Rightarrow> jsval" where
  "exportEntry_v1 d =
     JObject
       [(''index'', JNumber (Num (real (index_v1 d)))),
        (''timeSpent'', JNumber (Num (timeSpent_v1 d))),
        (''timeSpentSeconds'', JNumber (js_round (Num (timeSpent_v1 d / 1000)))),
        (''text'', JString (take 50 (textContent (element_v1 d)) @ ''...'')),
        (''normalizedEngagement'', JNumber (Num 0))]"

fun timeSpentOf :: "jsval \<Rightarrow> real" where
  "timeSpentOf (JObject kvs) = (case prop_of kvs ''timeSpent'' of JNumber (Num t) \<Rightarrow> t | _ \<Rightarrow> 0)"
| "timeSpentOf _ = 0"

fun normalize :: "real \<Rightarrow> jsval \<Rightarrow> jsval" where
  "normalize m (JObject kvs) =
     JObject (assign ''normalizedEngagement''
                (JNumber (js_div (num_of (prop_of kvs ''timeSpent'')) (Num m))) kvs)"
| "normalize m v = v"

definition exportData_v1 :: "tracker_v1 \<Rightarrow> (string \<times> jsval) list" where
  "exportData_v1 s =
     (let result = map (\<lambda>kv. (fst kv, exportEntry_v1 (snd kv))) (engagementData_v1 s) in
      case maxOf (map (\<lambda>kv. timeSpentOf (snd kv)) result) of
        None \<Rightarrow> result
      | Some maxTime \<Rightarrow>
          if maxTime > 0 then map (\<lambda>kv. (fst kv, normalize maxTime (snd kv))) result
          else result)"

section \<open>Concrete trackers\<close>

text \<open>
  Inputs for the instances below: paragraphs of a document, the tracker that
  \<open>new HighlightTracker()\<close> builds, and that tracker after \<open>init\<close> on a container with
  two paragraphs (\<open>Date.now()\<close> reading 1700, no heatmap option).
\<close>

definition para :: "nat \<Rightarrow> element" where
  "para n = \<lparr>uid = n, nodeName = ''P'', className = [], textContent = ''Lorem ipsum''\<rparr>"

definition defaultOptions :: "(string \<times> jsval) list" where
  "defaultOptions =
     [(''minTimeThreshold'', JNumber (Num 1000)),
      (''samplingRate'', JNumber (Num 200)),
      (''visibilityThreshold'', JNumber (Num (1 / 2))),
      (''colors'',
         JObject [(''low'', JString ''#C6E2FF''), (''medium'', JString ''#4F97FF''),
                  (''high'', JString ''#0047AB'')]),
      (''heatmapContainer'', Null)]"

definition fresh :: tracker where
  "fresh = (initializeState defaultOptions (\<lambda>e. None))\<lparr>domListeners := True\<rparr>"

definition engine :: tracker where
  "engine = snd (init 1700 (Some [para 0, para 1]) False fresh)"

definition seen :: "nat \<Rightarrow> real \<Rightarrow> intersection_entry" where
  "seen n r = \<lparr>target = para n, intersectionRatio = r, isIntersecting = (r > 0)\<rparr>"

definition watched :: tracker where
  "watched =
     run [Start 100, Report 100 [seen 0 1, seen 1 1], Report 1100 [seen 0 (1 / 2)],
          Report 4100 [seen 1 (1 / 2)]] engine"


definition fresh_v1 :: tracker_v1 where
  "fresh_v1 =
     \<lparr>options_v1 =
        [(''minTimeThreshold'', JNumber (Num 1000)), (''samplingRate'', JNumber (Num 200)),
         (''heatmapContainer'', Null), (''heatmapHeight'', JNumber (Num 30)),
         (''colors'',
            JObject [(''low'', JString ''#C6E2FF''), (''medium'', JString ''#4F97FF''),
                     (''high'', JString ''#0047AB'')])],
      paragraphs_v1 = [], engagementData_v1 = [], highlightId_v1 = (\<lambda>e. None),
      observer_v1 = False, isTracking_v1 = False, trackingInterval = False,
      scrollbarCreated = False\<rparr>"

definition engine_v1 :: tracker_v1 where
  "engine_v1 = startTracking_v1 (init_v1 (Some [para 0, para 1]) fresh_v1)"

definition watched_v1 :: tracker_v1 where
  "watched_v1 =
     checkVisibility 4100
       (handleIntersection_v1 1100 [seen 0 0]
          (checkVisibility 1100 (handleIntersection_v1 100 [seen 0 1, seen 1 1] engine_v1)))"

section \<open>The invariant of the accounting\<close>

text \<open>
  What every record of a tracker satisfies at a reading \<open>clock\<close> of \<open>performance.now()\<close>:
  the weighted time is at most the time spent, the ratio lies in \<open>[0, 1]\<close>, and the
  last update is not later than the clock.
\<close>

definition soundRecord :: "real \<Rightarrow> engagement \<Rightarrow> bool" where
  "soundRecord clock d =
     (weightedTime d \<le> timeSpent d \<and> 0 \<le> visibleRatio d \<and> visibleRatio d \<le> 1
      \<and> (case lastUpdate d of None \<Rightarrow> True | Some t \<Rightarrow> t \<le> clock))"

definition sound :: "real \<Rightarrow> tracker \<Rightarrow> bool" where
  "sound clock s = (\<forall>e d. engagementData s e = Some d \<longrightarrow> soundRecord clock d)"

section \<open>Facts about the steps\<close>

declare show_nat.simps [simp del]

lemma show_nat_values [simp]:
  "show_nat 0 = ''0''" "show_nat 1 = ''1''" "show_nat (Suc 0) = ''1''" "show_nat 2 = ''2''"
  "show_nat 10 = ''10''" "show_nat 1000 = ''1000''" "show_nat 1700 = ''1700''"
  by code_simp+

lemma show_nat_Suc2 [simp]: "show_nat (Suc (Suc 0)) = ''2''"
  using show_nat_values(4) by (simp add: numeral_2_eq_2)

lemma show_int_values [simp]:
  "show_int 0 = ''0''" "show_int 1 = ''1''" "show_int 10 = ''10''" "show_int 1000 = ''1000''"
  by (simp_all add: show_int_def)

lemma para_inj [simp]: "(para m = para n) = (m = n)"
  by (simp add: para_def)

lemma para_fields [simp]:
  "uid (para n) = n" "nodeName (para n) = ''P''" "className (para n) = []"
  "textContent (para n) = ''Lorem ipsum''"
  by (simp_all add: para_def)

lemma engine_eq:
  "engine =
     \<lparr>options = defaultOptions, paragraphs = [para 0, para 1],
      engagementData = [para 0 \<mapsto> emptyRecord, para 1 \<mapsto> emptyRecord],
      highlightId = [para 0 \<mapsto> ''p-1700-0'', para 1 \<mapsto> ''p-1700-1''],
      observer = True, resizeObserver = True, mutationObserver = True, domListeners = True,
      rafId = False, tabVisible = True, isTracking = False, trackingStartTime = 0,
      lastProcessedIndex = Idx 0, lastFrameTime = None, heatmapVisible = False,
      heatmapContainer = False, heatmapUpdateRequest = False, scrollListenerAdded = False,
      resizeTimeout = False, maxEngagement = 0, listeners = (\<lambda>name. []),
      emitted = [''ready'']\<rparr>"
  by (simp add: engine_def fresh_def defaultOptions_def initializeState_def init_def
      initBody_def andThen_def cleanupPrevious_def emit_def assignId_def
      initializeEngagementData_def register_def prop_of_def)

lemma watched_eq:
  "watched =
     \<lparr>options = defaultOptions, paragraphs = [para 0, para 1],
      engagementData =
        [para 0 \<mapsto> \<lparr>visibleRatio = 1 / 2, timeSpent = 1000, weightedTime = 500,
                    lastUpdate = Some 1100, inView = True\<rparr>,
         para 1 \<mapsto> \<lparr>visibleRatio = 1 / 2, timeSpent = 4000, weightedTime = 2000,
                    lastUpdate = Some 4100, inView = True\<rparr>],
      highlightId = [para 0 \<mapsto> ''p-1700-0'', para 1 \<mapsto> ''p-1700-1''],
      observer = True, resizeObserver = True, mutationObserver = True, domListeners = True,
      rafId = True, tabVisible = True, isTracking = True, trackingStartTime = 100,
      lastProcessedIndex = IdxNaN, lastFrameTime = None, heatmapVisible = False,
      heatmapContainer = False, heatmapUpdateRequest = False, scrollListenerAdded = False,
      resizeTimeout = False, maxEngagement = 4000, listeners = (\<lambda>name. []),
      emitted = [''ready'', ''trackingStarted'']\<rparr>"
  by (simp add: watched_def engine_eq run_def startTracking_def stampAll_def stamp_def
      trackingFrame_def processBatch_def emit_def handleIntersection_def intersectionStep_def
      seen_def accrue_def raiseMax_def Let_def emptyRecord_def)

lemmas evals =
  run_def startTracking_def stopTracking_def stampAll_def stamp_def trackingFrame_def
  processBatch_def emit_def handleIntersection_def intersectionStep_def seen_def accrue_def
  raiseMax_def Let_def handleVisibilityChange_def exportData_def exportStep_def
  emptyRecord_def defaultOptions_def prop_of_def

lemmas v1_evals =
  engine_v1_def fresh_v1_def init_v1_def register_v1_def startTracking_v1_def
  stopTracking_v1_def handleIntersection_v1_def intersectionStep_v1_def checkVisibility_def
  sample_v1_def flush_v1_def modify_def seen_def Let_def

lemma raiseMax_data [simp]: "engagementData (raiseMax d s) = engagementData s"
  by (simp add: raiseMax_def)

lemma raiseMax_fields [simp]:
  "tabVisible (raiseMax d s) = tabVisible s"
  "isTracking (raiseMax d s) = isTracking s"
  "paragraphs (raiseMax d s) = paragraphs s"
  "options (raiseMax d s) = options s"
  "lastProcessedIndex (raiseMax d s) = lastProcessedIndex s"
  "lastFrameTime (raiseMax d s) = lastFrameTime s"
  by (simp_all add: raiseMax_def)

subsection \<open>Visibility reports\<close>

lemma intersectionStep_other:
  "target en \<noteq> e \<Longrightarrow> engagementData (intersectionStep now en s) e = engagementData s e"
  by (simp add: intersectionStep_def Let_def split: option.splits)

lemma intersectionStep_dom:
  "(engagementData (intersectionStep now en s) e = None) = (engagementData s e = None)"
  by (cases "target en = e") (auto simp: intersectionStep_def Let_def split: option.splits)

lemma intersectionStep_ratio:
  "engagementData s (target en) \<noteq> None \<Longrightarrow>
   map_option visibleRatio (engagementData (intersectionStep now en s) (target en))
     = Some (intersectionRatio en)"
  by (auto simp: intersectionStep_def Let_def accrue_def split: option.splits)

lemma fold_intersectionStep_dom:
  "(engagementData (fold (intersectionStep now) es s) e = None) = (engagementData s e = None)"
  by (induction es arbitrary: s) (simp_all add: intersectionStep_dom)

lemma fold_intersectionStep_other:
  "\<forall>x \<in> set es. target x \<noteq> e \<Longrightarrow>
   engagementData (fold (intersectionStep now) es s) e = engagementData s e"
  by (induction es arbitrary: s) (simp_all add: intersectionStep_other)

subsection \<open>The emitter and the stamps\<close>

lemma emit_fields [simp]:
  "engagementData (snd (emit name s)) = engagementData s"
  "paragraphs (snd (emit name s)) = paragraphs s"
  "isTracking (snd (emit name s)) = isTracking s"
  "tabVisible (snd (emit name s)) = tabVisible s"
  "options (snd (emit name s)) = options s"
  "maxEngagement (snd (emit name s)) = maxEngagement s"
  "lastFrameTime (snd (emit name s)) = lastFrameTime s"
  "lastProcessedIndex (snd (emit name s)) = lastProcessedIndex s"
  "listeners (snd (emit name s)) = listeners s"
  by (simp_all add: emit_def)

subsection \<open>Stamping\<close>

lemma stamp_fields [simp]:
  "paragraphs (stamp now p s) = paragraphs s"
  "isTracking (stamp now p s) = isTracking s"
  "tabVisible (stamp now p s) = tabVisible s"
  "options (stamp now p s) = options s"
  "maxEngagement (stamp now p s) = maxEngagement s"
  "lastFrameTime (stamp now p s) = lastFrameTime s"
  "lastProcessedIndex (stamp now p s) = lastProcessedIndex s"
  by (simp_all add: stamp_def split: option.splits)

lemma stamp_data:
  "engagementData (stamp now p s) e =
     (if e = p then map_option (\<lambda>d. d\<lparr>lastUpdate := Some now\<rparr>) (engagementData s e)
      else engagementData s e)"
  by (simp add: stamp_def split: option.splits)

lemma fold_stamp_fields [simp]:
  "paragraphs (fold (stamp now) ps s) = paragraphs s"
  "isTracking (fold (stamp now) ps s) = isTracking s"
  "tabVisible (fold (stamp now) ps s) = tabVisible s"
  "options (fold (stamp now) ps s) = options s"
  "maxEngagement (fold (stamp now) ps s) = maxEngagement s"
  "lastFrameTime (fold (stamp now) ps s) = lastFrameTime s"
  "lastProcessedIndex (fold (stamp now) ps s) = lastProcessedIndex s"
  by (induction ps arbitrary: s; simp)+

lemma fold_stamp_data:
  "engagementData (fold (stamp now) ps s) e =
     (if e \<in> set ps then map_option (\<lambda>d. d\<lparr>lastUpdate := Some now\<rparr>) (engagementData s e)
      else engagementData s e)"
proof (induction ps arbitrary: s)
  case Nil
  then show ?case by simp
next
  case (Cons p ps)
  show ?case
    by (cases "engagementData s e") (auto simp: Cons stamp_data)
qed

lemma stampAll_data:
  "engagementData (stampAll now s) e =
     (if e \<in> set (paragraphs s)
      then map_option (\<lambda>d. d\<lparr>lastUpdate := Some now\<rparr>) (engagementData s e)
      else engagementData s e)"
  by (simp add: stampAll_def fold_stamp_data)

lemma stampAll_fields [simp]:
  "paragraphs (stampAll now s) = paragraphs s"
  "isTracking (stampAll now s) = isTracking s"
  "tabVisible (stampAll now s) = tabVisible s"
  "options (stampAll now s) = options s"
  "maxEngagement (stampAll now s) = maxEngagement s"
  "lastFrameTime (stampAll now s) = lastFrameTime s"
  "lastProcessedIndex (stampAll now s) = lastProcessedIndex s"
  by (simp_all add: stampAll_def)

subsection \<open>Batches\<close>

lemma batchStep_fields [simp]:
  "paragraphs (batchStep now i s) = paragraphs s"
  "isTracking (batchStep now i s) = isTracking s"
  "tabVisible (batchStep now i s) = tabVisible s"
  "options (batchStep now i s) = options s"
  "lastFrameTime (batchStep now i s) = lastFrameTime s"
  "lastProcessedIndex (batchStep now i s) = lastProcessedIndex s"
  by (simp_all add: batchStep_def Let_def split: jsidx.splits option.splits)

text \<open>What one step of a batch does to the records: nothing, or it re-stamps one record of a
  listed paragraph, crediting it first when its ratio reaches the threshold and its
  \<open>lastUpdate\<close> is live.\<close>

lemma batchStep_cases:
  obtains (same) "engagementData (batchStep now i s) = engagementData s"
  | (credit) p d where "p \<in> set (paragraphs s)" "engagementData s p = Some d" "live (lastUpdate d)"
      "js_ge (Num (visibleRatio d)) (num_of (prop_of (options s) ''visibilityThreshold''))"
      "engagementData (batchStep now i s)
         = (engagementData s)(p \<mapsto> (accrue (now - the (lastUpdate d)) d)\<lparr>lastUpdate := Some now\<rparr>)"
  | (touch) p d where "p \<in> set (paragraphs s)" "engagementData s p = Some d"
      "engagementData (batchStep now i s) = (engagementData s)(p \<mapsto> d\<lparr>lastUpdate := Some now\<rparr>)"
proof (cases "lastProcessedIndex s")
  case IdxNaN
  then have "engagementData (batchStep now i s) = engagementData s"
    by (simp add: batchStep_def)
  then show ?thesis by (rule same)
next
  case (Idx l)
  show ?thesis
  proof (cases "js_rem (l + i) (int (length (paragraphs s)))")
    case IdxNaN
    then have "engagementData (batchStep now i s) = engagementData s"
      using Idx by (simp add: batchStep_def)
    then show ?thesis by (rule same)
  next
    case k: (Idx k)
    show ?thesis
    proof (cases "k < 0 \<or> int (length (paragraphs s)) \<le> k")
      case True
      then have "engagementData (batchStep now i s) = engagementData s"
        using Idx k by (simp add: batchStep_def)
      then show ?thesis by (rule same)
    next
      case False
      let ?p = "paragraphs s ! nat k"
      have "nat k < length (paragraphs s)" using False by linarith
      then have mem: "?p \<in> set (paragraphs s)" by (rule nth_mem)
      show ?thesis
      proof (cases "engagementData s ?p")
        case None
        then have "engagementData (batchStep now i s) = engagementData s"
          using Idx k False by (simp add: batchStep_def Let_def)
        then show ?thesis by (rule same)
      next
        case (Some d)
        show ?thesis
        proof (cases "js_ge (Num (visibleRatio d)) (num_of (prop_of (options s) ''visibilityThreshold''))
                       \<and> live (lastUpdate d)")
          case True
          then have "engagementData (batchStep now i s)
              = (engagementData s)(?p \<mapsto> (accrue (now - the (lastUpdate d)) d)\<lparr>lastUpdate := Some now\<rparr>)"
            using Idx k False Some by (simp add: batchStep_def Let_def)
          then show ?thesis using credit mem Some True by blast
        next
          case nc: False
          then have "engagementData (batchStep now i s)
              = (engagementData s)(?p \<mapsto> d\<lparr>lastUpdate := Some now\<rparr>)"
            using Idx k False Some by (auto simp add: batchStep_def Let_def)
          then show ?thesis using touch mem Some by blast
        qed
      qed
    qed
  qed
qed

lemma batchStep_stamped:
  "engagementData (batchStep now i s) e = Some d' \<Longrightarrow>
   lastUpdate d' = Some now \<or> engagementData s e = Some d'"
  by (cases rule: batchStep_cases [of now i s]) (auto split: if_splits)

lemma fold_batchStep_fields [simp]:
  "paragraphs (fold (batchStep now) js s) = paragraphs s"
  "isTracking (fold (batchStep now) js s) = isTracking s"
  "tabVisible (fold (batchStep now) js s) = tabVisible s"
  "options (fold (batchStep now) js s) = options s"
  "lastFrameTime (fold (batchStep now) js s) = lastFrameTime s"
  "lastProcessedIndex (fold (batchStep now) js s) = lastProcessedIndex s"
  by (induction js arbitrary: s; simp)+

lemma fold_batchStep_stamped:
  "engagementData (fold (batchStep now) js s) e = Some d' \<Longrightarrow>
   lastUpdate d' = Some now \<or> engagementData s e = Some d'"
proof (induction js arbitrary: s)
  case Nil
  then show ?case by simp
next
  case (Cons j js)
  from Cons.IH [of "batchStep now j s"] Cons.prems
  have "lastUpdate d' = Some now \<or> engagementData (batchStep now j s) e = Some d'" by simp
  then show ?case using batchStep_stamped by blast
qed

lemma processBatch_data:
  "engagementData (processBatch now n s) =
     (case n of IdxNaN \<Rightarrow> engagementData s
      | Idx k \<Rightarrow> engagementData (fold (batchStep now) (map int [0..<nat k]) s))"
  by (simp add: processBatch_def Let_def split: jsidx.splits)

lemma processBatch_fields [simp]:
  "paragraphs (processBatch now n s) = paragraphs s"
  "isTracking (processBatch now n s) = isTracking s"
  "tabVisible (processBatch now n s) = tabVisible s"
  "options (processBatch now n s) = options s"
  "lastFrameTime (processBatch now n s) = lastFrameTime s"
  by (simp_all add: processBatch_def Let_def split: jsidx.splits)

lemma processBatch_stamped:
  "engagementData (processBatch now n s) e = Some d' \<Longrightarrow>
   lastUpdate d' = Some now \<or> engagementData s e = Some d'"
  by (cases n) (auto simp: processBatch_data dest: fold_batchStep_stamped)

lemma trackingFrame_fields [simp]:
  "paragraphs (trackingFrame now s) = paragraphs s"
  "isTracking (trackingFrame now s) = isTracking s"
  "tabVisible (trackingFrame now s) = tabVisible s"
  "options (trackingFrame now s) = options s"
  "lastFrameTime (trackingFrame now s) = lastFrameTime s"
  by (simp_all add: trackingFrame_def Let_def)

lemma trackingFrame_data:
  "engagementData (trackingFrame now s) =
     (if \<not> isTracking s \<or> \<not> tabVisible s then engagementData s
      else engagementData
             (processBatch now
                (batchSizeOf (case lastFrameTime s of None \<Rightarrow> NaN | Some t \<Rightarrow> Num (now - t))
                   (length (paragraphs s))) s))"
  by (simp add: trackingFrame_def Let_def)

lemma trackingFrame_stamped:
  "engagementData (trackingFrame now s) e = Some d' \<Longrightarrow>
   lastUpdate d' = Some now \<or> engagementData s e = Some d'"
  by (auto simp: trackingFrame_data dest: processBatch_stamped split: if_splits)

lemma startTracking_stamps:
  assumes "\<not> isTracking s" and "p \<in> set (paragraphs s)"
    and "engagementData (snd (startTracking t s)) p = Some d"
  shows "lastUpdate d = Some t"
proof -
  let ?s2 = "stampAll t (s\<lparr>isTracking := True, trackingStartTime := t\<rparr>)"
  have "engagementData (trackingFrame t ?s2) p = Some d"
    using assms(1,3) by (simp add: startTracking_def Let_def)
  then have "lastUpdate d = Some t \<or> engagementData ?s2 p = Some d"
    by (rule trackingFrame_stamped)
  then show ?thesis
    using assms(2) by (auto simp: stampAll_data)
qed

lemma stopTracking_fields [simp]:
  "engagementData (snd (stopTracking s)) = engagementData s"
  "paragraphs (snd (stopTracking s)) = paragraphs s"
  "isTracking (snd (stopTracking s)) = False"
  "tabVisible (snd (stopTracking s)) = tabVisible s"
  "options (snd (stopTracking s)) = options s"
  "maxEngagement (snd (stopTracking s)) = maxEngagement s"
  "lastFrameTime (snd (stopTracking s)) = lastFrameTime s"
  by (simp_all add: stopTracking_def)

subsection \<open>The invariant\<close>

lemma soundRecord_mono: "soundRecord c d \<Longrightarrow> c \<le> c' \<Longrightarrow> soundRecord c' d"
  by (auto simp: soundRecord_def split: option.splits)

lemma sound_mono: "sound c s \<Longrightarrow> c \<le> c' \<Longrightarrow> sound c' s"
  unfolding sound_def using soundRecord_mono by blast

lemma sound_data: "sound c s \<Longrightarrow> engagementData s' = engagementData s \<Longrightarrow> sound c s'"
  by (simp add: sound_def)

lemma soundRecord_touch: "soundRecord c d \<Longrightarrow> soundRecord now (d\<lparr>lastUpdate := Some now\<rparr>)"
  by (simp add: soundRecord_def)

lemma soundRecord_accrue:
  assumes "soundRecord c d" and "lastUpdate d = Some t" and "c \<le> now"
  shows "soundRecord now ((accrue (now - t) d)\<lparr>lastUpdate := Some now\<rparr>)"
proof -
  have r: "0 \<le> visibleRatio d" "visibleRatio d \<le> 1" and w: "weightedTime d \<le> timeSpent d"
    and t: "t \<le> c"
    using assms(1,2) by (simp_all add: soundRecord_def)
  have "0 \<le> now - t" using t assms(3) by simp
  then have "(now - t) * visibleRatio d \<le> now - t"
    using r(2) by (simp add: mult_left_le)
  then show ?thesis using r w by (simp add: soundRecord_def accrue_def)
qed

lemma soundRecord_empty: "soundRecord c emptyRecord"
  by (simp add: soundRecord_def emptyRecord_def)

lemma sound_upd:
  "sound now s \<Longrightarrow> soundRecord now d \<Longrightarrow> engagementData s' = (engagementData s)(p \<mapsto> d)
   \<Longrightarrow> sound now s'"
  by (simp add: sound_def)

lemma sound_del:
  "sound now s \<Longrightarrow> engagementData s' = (engagementData s)(p := None) \<Longrightarrow> sound now s'"
  by (simp add: sound_def)

lemma live_Some: "live u \<Longrightarrow> \<exists>t. u = Some t"
  by (cases u) simp_all

lemma intersectionStep_sound:
  assumes "sound c s" and "c \<le> now" and "0 \<le> intersectionRatio en" and "intersectionRatio en \<le> 1"
  shows "sound now (intersectionStep now en s)"
proof (cases "engagementData s (target en)")
  case None
  then have "intersectionStep now en s = s" by (simp add: intersectionStep_def)
  then show ?thesis using assms(1,2) sound_mono by simp
next
  case (Some d0)
  let ?d1 = "d0\<lparr>visibleRatio := intersectionRatio en, inView := isIntersecting en\<rparr>"
  have s0: "soundRecord c d0" using assms(1) Some by (simp add: sound_def)
  then have s1: "soundRecord c ?d1" using assms(3,4) by (simp add: soundRecord_def)
  have now: "sound now s" using assms(1,2) by (rule sound_mono)
  show ?thesis
  proof (cases "live (lastUpdate ?d1) \<and> inView ?d1 \<and> isTracking s")
    case True
    then obtain t where t: "lastUpdate ?d1 = Some t" using live_Some by blast
    have "soundRecord now ((accrue (now - t) ?d1)\<lparr>lastUpdate := Some now\<rparr>)"
      using s1 t assms(2) by (rule soundRecord_accrue)
    moreover have "engagementData (intersectionStep now en s)
        = (engagementData s)(target en \<mapsto> (accrue (now - t) ?d1)\<lparr>lastUpdate := Some now\<rparr>)"
      using Some True t by (simp add: intersectionStep_def Let_def)
    ultimately show ?thesis using now sound_upd by blast
  next
    case False
    have "soundRecord now (?d1\<lparr>lastUpdate := Some now\<rparr>)"
      using s1 by (rule soundRecord_touch)
    moreover have "engagementData (intersectionStep now en s)
        = (engagementData s)(target en \<mapsto> ?d1\<lparr>lastUpdate := Some now\<rparr>)"
      using Some False by (auto simp add: intersectionStep_def Let_def)
    ultimately show ?thesis using now sound_upd by blast
  qed
qed

lemma handleIntersection_sound:
  assumes "sound c s" and "c \<le> now"
    and "list_all (\<lambda>e. 0 \<le> intersectionRatio e \<and> intersectionRatio e \<le> 1) es"
  shows "sound now (handleIntersection now es s)"
proof -
  have "sound now s \<Longrightarrow> list_all (\<lambda>e. 0 \<le> intersectionRatio e \<and> intersectionRatio e \<le> 1) es
        \<Longrightarrow> sound now (fold (intersectionStep now) es s)" for s
    by (induction es arbitrary: s) (simp_all add: intersectionStep_sound)
  then show ?thesis
    using assms sound_mono by (simp add: handleIntersection_def)
qed

lemma batchStep_sound:
  assumes "sound c s" and "c \<le> now"
  shows "sound now (batchStep now i s)"
proof -
  have now: "sound now s" using assms by (rule sound_mono)
  show ?thesis
  proof (cases rule: batchStep_cases [of now i s])
    case same
    with now show ?thesis by (rule sound_data)
  next
    case (credit p d)
    obtain t where t: "lastUpdate d = Some t" using credit(3) live_Some by blast
    have "soundRecord c d" using assms(1) credit(2) by (simp add: sound_def)
    then have "soundRecord now ((accrue (now - t) d)\<lparr>lastUpdate := Some now\<rparr>)"
      using t assms(2) by (rule soundRecord_accrue)
    then show ?thesis using now credit(5) t sound_upd by simp
  next
    case (touch p d)
    have "soundRecord c d" using assms(1) touch(2) by (simp add: sound_def)
    then have "soundRecord now (d\<lparr>lastUpdate := Some now\<rparr>)" by (rule soundRecord_touch)
    then show ?thesis using now touch(3) sound_upd by blast
  qed
qed

lemma fold_batchStep_sound:
  "sound now s \<Longrightarrow> sound now (fold (batchStep now) js s)"
  by (induction js arbitrary: s) (simp_all add: batchStep_sound)

lemma processBatch_sound:
  assumes "sound c s" and "c \<le> now"
  shows "sound now (processBatch now n s)"
proof -
  have now: "sound now s" using assms by (rule sound_mono)
  show ?thesis
  proof (cases n)
    case IdxNaN
    then have "engagementData (processBatch now n s) = engagementData s"
      by (simp add: processBatch_data)
    with now show ?thesis by (rule sound_data)
  next
    case (Idx k)
    then have "engagementData (processBatch now n s)
               = engagementData (fold (batchStep now) (map int [0..<nat k]) s)"
      by (simp add: processBatch_data)
    with fold_batchStep_sound [OF now] show ?thesis by (rule sound_data)
  qed
qed

lemma trackingFrame_sound:
  assumes "sound c s" and "c \<le> now"
  shows "sound now (trackingFrame now s)"
proof (cases "\<not> isTracking s \<or> \<not> tabVisible s")
  case True
  then have "engagementData (trackingFrame now s) = engagementData s"
    by (simp add: trackingFrame_data)
  with sound_mono [OF assms] show ?thesis by (rule sound_data)
next
  case False
  then obtain n where "engagementData (trackingFrame now s) = engagementData (processBatch now n s)"
    by (simp add: trackingFrame_data)
  with processBatch_sound [OF assms] show ?thesis by (rule sound_data)
qed

lemma stampAll_sound:
  assumes "sound now s"
  shows "sound now (stampAll now s)"
  unfolding sound_def
proof (intro allI impI)
  fix e d
  assume a: "engagementData (stampAll now s) e = Some d"
  show "soundRecord now d"
  proof (cases "e \<in> set (paragraphs s)")
    case True
    then obtain d0 where d0: "engagementData s e = Some d0" "d = d0\<lparr>lastUpdate := Some now\<rparr>"
      using a by (auto simp: stampAll_data)
    then have "soundRecord now d0" using assms by (simp add: sound_def)
    then show ?thesis using d0(2) soundRecord_touch by simp
  next
    case False
    then show ?thesis using a assms by (simp add: stampAll_data sound_def)
  qed
qed

subsection \<open>Export\<close>

lemma exportStep_fields [simp]:
  "paragraphs (snd (exportStep now e acc)) = paragraphs (snd acc)"
  "isTracking (snd (exportStep now e acc)) = isTracking (snd acc)"
  "tabVisible (snd (exportStep now e acc)) = tabVisible (snd acc)"
  "options (snd (exportStep now e acc)) = options (snd acc)"
  "maxEngagement (snd (exportStep now e acc)) = maxEngagement (snd acc)"
  "lastFrameTime (snd (exportStep now e acc)) = lastFrameTime (snd acc)"
  by (simp_all add: exportStep_def Let_def split: option.splits)

lemma fold_exportStep_fields [simp]:
  "paragraphs (snd (fold (exportStep now) ps acc)) = paragraphs (snd acc)"
  "isTracking (snd (fold (exportStep now) ps acc)) = isTracking (snd acc)"
  "tabVisible (snd (fold (exportStep now) ps acc)) = tabVisible (snd acc)"
  "options (snd (fold (exportStep now) ps acc)) = options (snd acc)"
  "maxEngagement (snd (fold (exportStep now) ps acc)) = maxEngagement (snd acc)"
  "lastFrameTime (snd (fold (exportStep now) ps acc)) = lastFrameTime (snd acc)"
  by (induction ps arbitrary: acc; simp)+

lemma exportData_fields [simp]:
  "paragraphs (snd (exportData now s)) = paragraphs s"
  "isTracking (snd (exportData now s)) = isTracking s"
  "tabVisible (snd (exportData now s)) = tabVisible s"
  "options (snd (exportData now s)) = options s"
  "maxEngagement (snd (exportData now s)) = maxEngagement s"
  "lastFrameTime (snd (exportData now s)) = lastFrameTime s"
  by (simp_all add: exportData_def)

lemma exportStep_sound:
  assumes "sound c (snd acc)"
  shows "sound c (snd (exportStep now e acc))"
proof (cases "engagementData (snd acc) e")
  case None
  then show ?thesis using assms by (simp add: exportStep_def Let_def)
next
  case (Some d)
  have d: "soundRecord c d" using assms Some by (simp add: sound_def)
  let ?x = "(now - the (lastUpdate d)) * visibleRatio d"
  have "soundRecord c (d\<lparr>timeSpent := timeSpent d + ?x, weightedTime := weightedTime d + ?x\<rparr>)"
    using d by (simp add: soundRecord_def)
  then show ?thesis
    using assms Some d by (simp add: exportStep_def Let_def sound_def)
qed

lemma exportData_sound: "sound c s \<Longrightarrow> sound c (snd (exportData now s))"
proof -
  have "sound c (snd acc) \<Longrightarrow> sound c (snd (fold (exportStep now) ps acc))" for ps acc
    by (induction ps arbitrary: acc) (simp_all add: exportStep_sound)
  then show "sound c s \<Longrightarrow> sound c (snd (exportData now s))"
    by (simp add: exportData_def)
qed

subsection \<open>Steps that may throw\<close>

lemma steps_preserve:
  assumes "\<And>f s. f \<in> set fs \<Longrightarrow> I s \<Longrightarrow> I (snd (f s))" and "I s"
  shows "I (snd (steps fs s))"
  using assms
proof (induction fs arbitrary: s)
  case Nil
  then show ?case by simp
next
  case (Cons f fs)
  have f: "I (snd (f s))" using Cons.prems by simp
  show ?case
  proof (cases "f s")
    case (Pair r s')
    then have s': "I s'" using f by simp
    show ?thesis
    proof (cases r)
      case None
      then show ?thesis using Pair Cons.IH [of s'] Cons.prems(1) s' by (simp add: andThen_def)
    next
      case (Some e)
      then show ?thesis using Pair s' by (simp add: andThen_def)
    qed
  qed
qed

lemma emit_sound: "sound c s \<Longrightarrow> sound c (snd (emit name s))"
  by (erule sound_data) simp

lemma stopTracking_sound: "sound c s \<Longrightarrow> sound c (snd (stopTracking s))"
  by (erule sound_data) simp

lemma startTracking_sound:
  assumes "sound c s" and "c \<le> now"
  shows "sound now (snd (startTracking now s))"
proof (cases "isTracking s")
  case True
  then show ?thesis using sound_mono [OF assms] by (simp add: startTracking_def)
next
  case False
  let ?s1 = "s\<lparr>isTracking := True, trackingStartTime := now\<rparr>"
  have "sound now ?s1" using sound_mono [OF assms] by (rule sound_data) simp
  then have "sound now (stampAll now ?s1)" by (rule stampAll_sound)
  then have "sound now (trackingFrame now (stampAll now ?s1))"
    by (rule trackingFrame_sound) simp
  then have "sound now (snd (emit ''trackingStarted'' (trackingFrame now (stampAll now ?s1))))"
    by (rule emit_sound)
  then show ?thesis using False by (simp add: startTracking_def Let_def)
qed

lemma handleVisibilityChange_sound:
  assumes "sound c s" and "c \<le> now"
  shows "sound now (snd (handleVisibilityChange visible now s))"
proof -
  let ?s1 = "s\<lparr>tabVisible := visible\<rparr>"
  have a: "sound now ?s1" using sound_mono [OF assms] by (rule sound_data) simp
  then have "sound now (stampAll now ?s1)" by (rule stampAll_sound)
  with a have "sound now (if visible then stampAll now ?s1 else ?s1)" by (cases visible) auto
  then have "sound now (snd (emit ''visibilityChange'' (if visible then stampAll now ?s1 else ?s1)))"
    by (rule emit_sound)
  then show ?thesis by (simp add: handleVisibilityChange_def Let_def)
qed

lemma handleUnload_sound: "sound c s \<Longrightarrow> sound c (handleUnload now s)"
  by (simp add: handleUnload_def exportData_sound emit_sound)


lemma andThen_preserve:
  assumes "I (snd (f s))" and "\<And>s'. I s' \<Longrightarrow> I (snd (g s'))"
  shows "I (snd (andThen f g s))"
proof (cases "f s")
  case (Pair r s')
  then show ?thesis using assms by (cases r) (auto simp: andThen_def)
qed

subsection \<open>Changes of the document and the heatmap\<close>

lemma addedStep_sound:
  assumes "sound now s"
  shows "sound now (snd (addedStep dateNow now node s))"
proof (cases "nodeName node = ''P''")
  case False
  then show ?thesis using assms by (simp add: addedStep_def)
next
  case True
  let ?d = "\<lparr>visibleRatio = 0, timeSpent = 0, weightedTime = 0,
             lastUpdate = (if isTracking s then Some now else None), inView = False\<rparr>"
  have "soundRecord now ?d" by (simp add: soundRecord_def)
  moreover have "engagementData (snd (addedStep dateNow now node s))
                 = (engagementData s)(node \<mapsto> ?d)"
    using True by (simp add: addedStep_def Let_def)
  ultimately show ?thesis using assms sound_upd by blast
qed

lemma removedStep_sound: "sound c s \<Longrightarrow> sound c (removedStep node s)"
  by (auto simp: removedStep_def sound_def split: option.splits)

lemma fold_removedStep_sound: "sound c s \<Longrightarrow> sound c (fold removedStep nodes s)"
  by (induction nodes arbitrary: s) (simp_all add: removedStep_sound)

lemma updateHeatmap_data [simp]: "engagementData (updateHeatmap s) = engagementData s"
  by (simp add: updateHeatmap_def)

lemma handleDOMChanges_sound:
  assumes "sound now s"
  shows "sound now (snd (handleDOMChanges dateNow now m s))"
  unfolding handleDOMChanges_def
proof (rule steps_preserve [where I = "sound now"])
  fix f s'
  assume f: "f \<in> set (map (addedStep dateNow now) (addedNodes m)
                 @ [\<lambda>s. (None, fold removedStep (removedNodes m) s),
                    \<lambda>s. (None, if heatmapVisible s then updateHeatmap s else s)])"
    and s': "sound now s'"
  from f consider (added) node where "f = addedStep dateNow now node"
    | (removed) "f = (\<lambda>s. (None, fold removedStep (removedNodes m) s))"
    | (heat) "f = (\<lambda>s. (None, if heatmapVisible s then updateHeatmap s else s))"
    by auto
  then show "sound now (snd (f s'))"
  proof cases
    case added
    then show ?thesis using s' addedStep_sound by simp
  next
    case removed
    then show ?thesis using s' fold_removedStep_sound by simp
  next
    case heat
    then show ?thesis using s' by (auto intro: sound_data)
  qed
qed (rule assms)

lemma createHeatmap_data [simp]: "engagementData (snd (createHeatmap s)) = engagementData s"
  by (simp add: createHeatmap_def)

lemma hideHeatmap_data [simp]: "engagementData (snd (hideHeatmap s)) = engagementData s"
  by (simp add: hideHeatmap_def)

lemma heatmapFrame_data [simp]: "engagementData (heatmapFrame s) = engagementData s"
  by (simp add: heatmapFrame_def)

lemma addListener_data [simp]: "engagementData (addListener name l s) = engagementData s"
  by (simp add: addListener_def)

subsection \<open>Initialisation and teardown\<close>

lemma cleanupPrevious_sound: "sound c s \<Longrightarrow> sound c (snd (cleanupPrevious s))"
  unfolding cleanupPrevious_def
  by (rule steps_preserve [where I = "sound c"])
     (auto simp: sound_def stopTracking_def emit_def split: if_splits)

lemma initializeEngagementData_sound: "sound c s \<Longrightarrow> sound c (initializeEngagementData s)"
proof -
  have r: "sound c s \<Longrightarrow> sound c (register p s)" for p s
    by (simp add: sound_def soundRecord_empty register_def)
  have "sound c s \<Longrightarrow> sound c (fold register ps s)" for ps s
    by (induction ps arbitrary: s) (simp_all add: r)
  then show "sound c s \<Longrightarrow> sound c (initializeEngagementData s)"
    by (simp add: initializeEngagementData_def)
qed

lemma fold_assignId_data [simp]:
  "engagementData (fold (assignId dateNow) ips s) = engagementData s"
  by (induction ips arbitrary: s) (simp_all add: assignId_def)

lemma initBody_sound:
  assumes "sound c s"
  shows "sound c (snd (initBody dateNow found heatmapFound s))"
  unfolding initBody_def
proof (rule andThen_preserve [where I = "sound c"])
  show "sound c (snd (cleanupPrevious s))" using assms by (rule cleanupPrevious_sound)
next
  fix s'
  assume s': "sound c s'"
  show "sound c (snd (case found of
            None \<Rightarrow> (Some (Error ''Container not found''), s')
          | Some ps \<Rightarrow>
              steps
                [\<lambda>s. if ps = [] then emit ''warning'' s else (None, s),
                 \<lambda>s. (None, (fold (assignId dateNow) (enumerate 0 ps) s)\<lparr>paragraphs := ps\<rparr>),
                 \<lambda>s. (None, initializeEngagementData s),
                 \<lambda>s. (None, s\<lparr>observer := True, resizeObserver := True,
                               mutationObserver := True\<rparr>),
                 \<lambda>s. if truthy (prop_of (options s) ''heatmapContainer'')
                      then (if heatmapFound then (None, s\<lparr>heatmapContainer := True\<rparr>)
                            else (Some (Error ''Heatmap container not found''), s))
                      else (None, s),
                 emit ''ready''] s'))"
  proof (cases found)
    case None
    then show ?thesis using s' by simp
  next
    case (Some ps)
    have "sound c (snd (steps
                [\<lambda>s. if ps = [] then emit ''warning'' s else (None, s),
                 \<lambda>s. (None, (fold (assignId dateNow) (enumerate 0 ps) s)\<lparr>paragraphs := ps\<rparr>),
                 \<lambda>s. (None, initializeEngagementData s),
                 \<lambda>s. (None, s\<lparr>observer := True, resizeObserver := True,
                               mutationObserver := True\<rparr>),
                 \<lambda>s. if truthy (prop_of (options s) ''heatmapContainer'')
                      then (if heatmapFound then (None, s\<lparr>heatmapContainer := True\<rparr>)
                            else (Some (Error ''Heatmap container not found''), s))
                      else (None, s),
                 emit ''ready''] s'))"
      by (rule steps_preserve [where I = "sound c"])
         (auto simp: s' emit_sound initializeEngagementData_sound intro: sound_data)
    then show ?thesis using Some by simp
  qed
qed

lemma init_sound:
  assumes "sound c s"
  shows "sound c (snd (init dateNow found heatmapFound s))"
proof -
  obtain r s' where b: "initBody dateNow found heatmapFound s = (r, s')"
    by (cases "initBody dateNow found heatmapFound s")
  have s': "sound c s'" using initBody_sound [OF assms, of dateNow found heatmapFound] b by simp
  then have e: "sound c (snd (emit ''error'' s'))" by (rule emit_sound)
  show ?thesis
    using b s' e by (cases r; cases "emit ''error'' s'") (auto simp: init_def split: option.splits)
qed

lemma destroyBody_sound:
  assumes "sound c s"
  shows "sound c (snd (destroyBody faulty s))"
  unfolding destroyBody_def
proof (rule steps_preserve [where I = "sound c"])
  show "sound c s" by (rule assms)
qed (auto simp: stopTracking_sound emit_sound external_def sound_def split: if_splits)

lemma destroy_sound:
  assumes "sound c s"
  shows "sound c (snd (destroy faulty s))"
proof -
  obtain r s' where b: "destroyBody faulty s = (r, s')"
    by (cases "destroyBody faulty s")
  have s': "sound c s'" using destroyBody_sound [OF assms, of faulty] b by simp
  then have "sound c (snd (emit ''error'' s'))" by (rule emit_sound)
  then show ?thesis using b s' by (cases r) (simp_all add: destroy_def)
qed

subsection \<open>Runs\<close>

lemma exec_sound:
  assumes "sound c s" and "ratiosOk ev"
  shows "case timeOf ev of None \<Rightarrow> sound c (exec ev s)
         | Some now \<Rightarrow> c \<le> now \<longrightarrow> sound now (exec ev s)"
proof (cases ev)
  case (Report now es)
  then show ?thesis using assms handleIntersection_sound by simp
next
  case (Frame now)
  then show ?thesis using assms trackingFrame_sound by simp
next
  case (Batch now n)
  then show ?thesis using assms processBatch_sound by simp
next
  case (Export now)
  then show ?thesis using assms exportData_sound sound_mono by auto
next
  case (Unload now)
  then show ?thesis using assms handleUnload_sound sound_mono by auto
next
  case (Start now)
  then show ?thesis using assms startTracking_sound by simp
next
  case (Stop now)
  then show ?thesis using assms stopTracking_sound sound_mono by auto
next
  case (TabChange visible now)
  then show ?thesis using assms handleVisibilityChange_sound by simp
next
  case (DomChange dateNow now m)
  then show ?thesis using assms handleDOMChanges_sound sound_mono by auto
next
  case (Listen name l)
  have "sound c (addListener name l s)" using assms(1) by (rule sound_data) simp
  then show ?thesis using Listen by simp
next
  case (ShowHeatmap now)
  have "sound c (snd (createHeatmap s))" using assms(1) by (rule sound_data) simp
  then show ?thesis using ShowHeatmap sound_mono by auto
next
  case (HideHeatmap now)
  have "sound c (snd (hideHeatmap s))" using assms(1) by (rule sound_data) simp
  then show ?thesis using HideHeatmap sound_mono by auto
next
  case (HeatmapFrame now)
  have "sound c (heatmapFrame s)" using assms(1) by (rule sound_data) simp
  then show ?thesis using HeatmapFrame sound_mono by auto
next
  case (Init dateNow found heatmapFound)
  then show ?thesis using assms init_sound by simp
next
  case (Destroy faulty)
  then show ?thesis using assms destroy_sound by simp
qed

lemma run_sound:
  "sound c s \<Longrightarrow> wellTimed c evs \<Longrightarrow> \<exists>c'. sound c' (run evs s)"
proof (induction evs arbitrary: c s)
  case Nil
  then show ?case by (auto simp: run_def)
next
  case (Cons ev evs)
  have ok: "ratiosOk ev" using Cons.prems(2) by simp
  show ?case
  proof (cases "timeOf ev")
    case None
    then have "sound c (exec ev s)" "wellTimed c evs"
      using exec_sound [OF Cons.prems(1) ok] Cons.prems(2) by simp_all
    then show ?thesis using Cons.IH [of c "exec ev s"] by (simp add: run_def)
  next
    case (Some now)
    then have "sound now (exec ev s)" "wellTimed now evs"
      using exec_sound [OF Cons.prems(1) ok] Cons.prems(2) by simp_all
    then show ?thesis using Cons.IH [of now "exec ev s"] by (simp add: run_def)
  qed
qed

lemma newTracker_empty: "newTracker input dataset = Inr s \<Longrightarrow> engagementData s = Map.empty"
  by (auto simp: newTracker_def initializeState_def split: sum.splits)

subsection \<open>The frame time that is never set\<close>

lemma intersectionStep_fields [simp]:
  "paragraphs (intersectionStep now en s) = paragraphs s"
  "isTracking (intersectionStep now en s) = isTracking s"
  "tabVisible (intersectionStep now en s) = tabVisible s"
  "options (intersectionStep now en s) = options s"
  "lastFrameTime (intersectionStep now en s) = lastFrameTime s"
  by (simp_all add: intersectionStep_def Let_def split: option.splits)

lemma fold_intersectionStep_fields [simp]:
  "paragraphs (fold (intersectionStep now) es s) = paragraphs s"
  "isTracking (fold (intersectionStep now) es s) = isTracking s"
  "tabVisible (fold (intersectionStep now) es s) = tabVisible s"
  "options (fold (intersectionStep now) es s) = options s"
  "lastFrameTime (fold (intersectionStep now) es s) = lastFrameTime s"
  by (induction es arbitrary: s; simp)+

lemma handleIntersection_lastFrameTime [simp]:
  "lastFrameTime (handleIntersection now es s) = lastFrameTime s"
  by (simp add: handleIntersection_def)

lemma startTracking_lastFrameTime [simp]:
  "lastFrameTime (snd (startTracking now s)) = lastFrameTime s"
  by (simp add: startTracking_def Let_def)

lemma handleVisibilityChange_lastFrameTime [simp]:
  "lastFrameTime (snd (handleVisibilityChange visible now s)) = lastFrameTime s"
  by (simp add: handleVisibilityChange_def Let_def)

lemma handleUnload_lastFrameTime [simp]: "lastFrameTime (handleUnload now s) = lastFrameTime s"
  by (simp add: handleUnload_def)

lemma removedStep_lastFrameTime [simp]: "lastFrameTime (removedStep node s) = lastFrameTime s"
  by (simp add: removedStep_def split: option.splits)

lemma fold_removedStep_lastFrameTime [simp]:
  "lastFrameTime (fold removedStep nodes s) = lastFrameTime s"
  by (induction nodes arbitrary: s) simp_all

lemma handleDOMChanges_lastFrameTime:
  "lastFrameTime s = None \<Longrightarrow> lastFrameTime (snd (handleDOMChanges dateNow now m s)) = None"
  unfolding handleDOMChanges_def
  by (rule steps_preserve [where I = "\<lambda>s. lastFrameTime s = None"])
     (auto simp: addedStep_def updateHeatmap_def Let_def)

lemma cleanupPrevious_lastFrameTime:
  "lastFrameTime s = None \<Longrightarrow> lastFrameTime (snd (cleanupPrevious s)) = None"
  unfolding cleanupPrevious_def
  by (rule steps_preserve [where I = "\<lambda>s. lastFrameTime s = None"]) (auto split: if_splits)

lemma fold_assignId_lastFrameTime [simp]:
  "lastFrameTime (fold (assignId dateNow) ips s) = lastFrameTime s"
  by (induction ips arbitrary: s) (simp_all add: assignId_def)

lemma initializeEngagementData_lastFrameTime [simp]:
  "lastFrameTime (initializeEngagementData s) = lastFrameTime s"
proof -
  have "lastFrameTime (fold register ps s) = lastFrameTime s" for ps s
    by (induction ps arbitrary: s) (simp_all add: register_def)
  then show ?thesis by (simp add: initializeEngagementData_def)
qed

lemma init_lastFrameTime:
  assumes "lastFrameTime s = None"
  shows "lastFrameTime (snd (init dateNow found heatmapFound s)) = None"
proof -
  let ?I = "\<lambda>s::tracker. lastFrameTime s = None"
  have "?I (snd (initBody dateNow found heatmapFound s))"
    unfolding initBody_def
  proof (rule andThen_preserve [where I = ?I])
    show "?I (snd (cleanupPrevious s))" using assms by (rule cleanupPrevious_lastFrameTime)
  next
    fix s'
    assume s': "?I s'"
    show "?I (snd (case found of
            None \<Rightarrow> (Some (Error ''Container not found''), s')
          | Some ps \<Rightarrow>
              steps
                [\<lambda>s. if ps = [] then emit ''warning'' s else (None, s),
                 \<lambda>s. (None, (fold (assignId dateNow) (enumerate 0 ps) s)\<lparr>paragraphs := ps\<rparr>),
                 \<lambda>s. (None, initializeEngagementData s),
                 \<lambda>s. (None, s\<lparr>observer := True, resizeObserver := True,
                               mutationObserver := True\<rparr>),
                 \<lambda>s. if truthy (prop_of (options s) ''heatmapContainer'')
                      then (if heatmapFound then (None, s\<lparr>heatmapContainer := True\<rparr>)
                            else (Some (Error ''Heatmap container not found''), s))
                      else (None, s),
                 emit ''ready''] s'))"
    proof (cases found)
      case None
      then show ?thesis using s' by simp
    next
      case (Some ps)
      have "?I (snd (steps
                [\<lambda>s. if ps = [] then emit ''warning'' s else (None, s),
                 \<lambda>s. (None, (fold (assignId dateNow) (enumerate 0 ps) s)\<lparr>paragraphs := ps\<rparr>),
                 \<lambda>s. (None, initializeEngagementData s),
                 \<lambda>s. (None, s\<lparr>observer := True, resizeObserver := True,
                               mutationObserver := True\<rparr>),
                 \<lambda>s. if truthy (prop_of (options s) ''heatmapContainer'')
                      then (if heatmapFound then (None, s\<lparr>heatmapContainer := True\<rparr>)
                            else (Some (Error ''Heatmap container not found''), s))
                      else (None, s),
                 emit ''ready''] s'))"
        by (rule steps_preserve [where I = ?I]) (auto simp: s')
      then show ?thesis using Some by simp
    qed
  qed
  then show ?thesis
    by (cases "initBody dateNow found heatmapFound s")
       (auto simp: init_def emit_def split: option.splits if_splits)
qed

lemma destroy_lastFrameTime:
  assumes "lastFrameTime s = None"
  shows "lastFrameTime (snd (destroy faulty s)) = None"
proof -
  have "lastFrameTime (snd (destroyBody faulty s)) = None"
    unfolding destroyBody_def
  proof (rule steps_preserve [where I = "\<lambda>s. lastFrameTime s = None"])
    show "lastFrameTime s = None" by (rule assms)
  qed (auto simp: external_def split: if_splits)
  then show ?thesis
    by (cases "destroyBody faulty s") (auto simp: destroy_def split: option.splits)
qed

lemma exec_lastFrameTime:
  "lastFrameTime s = None \<Longrightarrow> lastFrameTime (exec ev s) = None"
  by (cases ev)
     (simp_all add: handleDOMChanges_lastFrameTime init_lastFrameTime destroy_lastFrameTime
        addListener_def createHeatmap_def hideHeatmap_def heatmapFrame_def updateHeatmap_def)

lemma run_lastFrameTime:
  "lastFrameTime s = None \<Longrightarrow> lastFrameTime (run evs s) = None"
  unfolding run_def
  by (induction evs arbitrary: s) (simp_all add: exec_lastFrameTime)

lemma newTracker_lastFrameTime: "newTracker input dataset = Inr s \<Longrightarrow> lastFrameTime s = None"
  by (auto simp: newTracker_def initializeState_def split: sum.splits)

subsection \<open>When time is credited\<close>


lemma intersectionStep_isTracking [simp]:
  "isTracking (intersectionStep now en s) = isTracking s"
  by (simp add: intersectionStep_def Let_def split: option.splits)

lemma fold_intersectionStep_isTracking [simp]:
  "isTracking (fold (intersectionStep now) es s) = isTracking s"
  by (induction es arbitrary: s) simp_all










subsection \<open>Removal of a paragraph\<close>







lemma updateHeatmap_fields [simp]:
  "paragraphs (updateHeatmap s) = paragraphs s"
  "maxEngagement (updateHeatmap s) = maxEngagement s"
  by (simp_all add: updateHeatmap_def)

lemma removedStep_maxEngagement [simp]: "maxEngagement (removedStep node s) = maxEngagement s"
  by (simp add: removedStep_def split: option.splits)

lemma fold_removedStep_maxEngagement [simp]:
  "maxEngagement (fold removedStep nodes s) = maxEngagement s"
  by (induction nodes arbitrary: s) simp_all

lemma addedStep_maxEngagement [simp]:
  "maxEngagement (snd (addedStep dateNow now node s)) = maxEngagement s"
  by (simp add: addedStep_def Let_def)





lemma steps_snoc_ok:
  "fst (steps (fs @ [f]) s) = None \<Longrightarrow>
   fst (steps fs s) = None \<and> steps (fs @ [f]) s = f (snd (steps fs s))"
proof (induction fs arbitrary: s)
  case Nil
  then show ?case by (cases "f s") (auto simp: andThen_def split: option.splits)
next
  case (Cons g gs)
  then show ?case by (cases "g s") (auto simp: andThen_def split: option.splits)
qed




subsection \<open>The exported objects\<close>

lemma maxOf_Max: "xs \<noteq> [] \<Longrightarrow> maxOf xs = Some (Max (set xs))"
proof (cases xs)
  case Nil
  assume "xs \<noteq> []"
  with Nil show ?thesis by simp
next
  case (Cons x ys)
  have "Max (set (x # ys)) = fold max ys x" by (rule Max.set_eq_fold)
  then show ?thesis using Cons by (simp only: maxOf.simps)
qed

lemma timeSpentOf_entry [simp]: "timeSpentOf (exportEntry_v1 d) = timeSpent_v1 d"
  by (simp add: exportEntry_v1_def prop_of_def)

lemma normalized_entry:
  "m \<noteq> 0 \<Longrightarrow>
   prop_of (entriesOf (normalize m (exportEntry_v1 d))) ''normalizedEngagement''
     = JNumber (Num (timeSpent_v1 d / m))"
  by (simp add: exportEntry_v1_def prop_of_def)

lemma plain_entry:
  "prop_of (entriesOf (exportEntry_v1 d)) ''normalizedEngagement'' = JNumber (Num 0)"
  by (simp add: exportEntry_v1_def prop_of_def)

lemma prop_of_map:
  assumes "distinct (map fst kvs)" and "(k, d) \<in> set kvs"
  shows "prop_of (map (\<lambda>kv. (fst kv, f (snd kv))) kvs) k = f d"
proof -
  have "map_of kvs k = Some d" using assms by simp
  moreover have "map_of (map (\<lambda>kv. (fst kv, f (snd kv))) kvs) = map_option f \<circ> map_of kvs"
    using map_of_map [of f kvs] by (simp add: case_prod_unfold)
  ultimately show ?thesis by (simp add: prop_of_def)
qed

lemma exportData_v1_normalized:
  assumes "distinct (map fst (engagementData_v1 s))" and "(k, d) \<in> set (engagementData_v1 s)"
  shows "prop_of (entriesOf (prop_of (exportData_v1 s) k)) ''normalizedEngagement''
         = JNumber (Num (if Max (set (map (\<lambda>kd. timeSpent_v1 (snd kd)) (engagementData_v1 s))) > 0
                         then timeSpent_v1 d
                              / Max (set (map (\<lambda>kd. timeSpent_v1 (snd kd)) (engagementData_v1 s)))
                         else 0))"
proof -
  let ?kvs = "engagementData_v1 s"
  let ?res = "map (\<lambda>kv. (fst kv, exportEntry_v1 (snd kv))) ?kvs"
  let ?m = "Max (set (map (\<lambda>kd. timeSpent_v1 (snd kd)) ?kvs))"
  have ne: "?kvs \<noteq> []" using assms(2) by auto
  have ts: "map (\<lambda>kv. timeSpentOf (snd kv)) ?res = map (\<lambda>kd. timeSpent_v1 (snd kd)) ?kvs"
    by (simp add: comp_def)
  have mx: "maxOf (map (\<lambda>kv. timeSpentOf (snd kv)) ?res) = Some ?m"
    unfolding ts using ne by (simp add: maxOf_Max)
  have dres: "distinct (map fst ?res)" using assms(1) by (simp add: comp_def)
  have mem: "(k, exportEntry_v1 d) \<in> set ?res" using assms(2) by force
  show ?thesis
  proof (cases "?m > 0")
    case True
    then have e: "exportData_v1 s = map (\<lambda>kv. (fst kv, normalize ?m (snd kv))) ?res"
      using mx by (simp add: exportData_v1_def Let_def)
    have "prop_of (exportData_v1 s) k = normalize ?m (exportEntry_v1 d)"
      unfolding e using dres mem by (rule prop_of_map)
    then show ?thesis using True by (simp add: normalized_entry)
  next
    case False
    then have e: "exportData_v1 s = ?res"
      using mx by (simp add: exportData_v1_def Let_def)
    have "prop_of (exportData_v1 s) k = exportEntry_v1 d"
      unfolding e using assms by (rule prop_of_map)
    then show ?thesis using False by (simp add: plain_entry)
  qed
qed

text \<open>Every entry of the second version's export has the same six keys.\<close>

lemma assign_subset: "set (assign k v kvs) \<subseteq> insert (k, v) (set kvs)"
  by (induction kvs) (auto split: if_splits)

lemma assign_keys:
  assumes "\<forall>kv \<in> set kvs. P (snd kv)" and "P v"
  shows "\<forall>kv \<in> set (assign k v kvs). P (snd kv)"
proof
  fix kv
  assume "kv \<in> set (assign k v kvs)"
  then have "kv = (k, v) \<or> kv \<in> set kvs" using assign_subset [of k v kvs] by auto
  then show "P (snd kv)" using assms by auto
qed

lemma exportStep_result:
  "fst (exportStep now e acc) = fst acc
   \<or> (\<exists>k v. fst (exportStep now e acc) = assign k (JObject v) (fst acc)
            \<and> map fst v
                = [''rawTime'', ''adjustedTime'', ''weightedTime'', ''text'', ''visibleRatio'',
                   ''element''])"
proof (cases "engagementData (snd acc) e")
  case None
  then show ?thesis by (simp add: exportStep_def Let_def)
next
  case (Some d)
  then obtain v where "fst (exportStep now e acc) = assign (keyOf (snd acc) e) (JObject v) (fst acc)"
    and "map fst v = [''rawTime'', ''adjustedTime'', ''weightedTime'', ''text'', ''visibleRatio'',
                      ''element'']"
    by (simp add: exportStep_def Let_def)
  then show ?thesis by (intro disjI2 exI conjI)
qed

lemma exportStep_keys:
  assumes "\<forall>kv \<in> set (fst acc). map fst (entriesOf (snd kv)) = exportKeys"
  shows "\<forall>kv \<in> set (fst (exportStep now e acc)). map fst (entriesOf (snd kv)) = exportKeys"
proof (rule disjE [OF exportStep_result [of now e acc]])
  assume "fst (exportStep now e acc) = fst acc"
  then show ?thesis using assms by simp
next
  assume "\<exists>k v. fst (exportStep now e acc) = assign k (JObject v) (fst acc)
            \<and> map fst v
                = [''rawTime'', ''adjustedTime'', ''weightedTime'', ''text'', ''visibleRatio'',
                   ''element'']"
  then obtain k v where 1: "fst (exportStep now e acc) = assign k (JObject v) (fst acc)"
    and 2: "map fst v = exportKeys"
    unfolding exportKeys_def by auto
  have "map fst (entriesOf (JObject v)) = exportKeys" using 2 by simp
  with assms show ?thesis unfolding 1 by (rule assign_keys)
qed

lemma exportData_keys:
  "\<forall>kv \<in> set (fst (exportData now s)). map fst (entriesOf (snd kv)) = exportKeys"
proof -
  have "\<forall>kv \<in> set (fst acc). map fst (entriesOf (snd kv)) = exportKeys
        \<Longrightarrow> \<forall>kv \<in> set (fst (fold (exportStep now) ps acc)). map fst (entriesOf (snd kv)) = exportKeys"
    for ps acc
  proof (induction ps arbitrary: acc)
    case Nil
    then show ?case by simp
  next
    case (Cons p ps)
    from Cons.prems have "\<forall>kv \<in> set (fst (exportStep now p acc)).
        map fst (entriesOf (snd kv)) = exportKeys"
      by (rule exportStep_keys)
    then have "\<forall>kv \<in> set (fst (fold (exportStep now) ps (exportStep now p acc))).
        map fst (entriesOf (snd kv)) = exportKeys"
      by (rule Cons.IH)
    then show ?case by simp
  qed
  from this [of "([], s)" "paragraphs s"] show ?thesis by (simp add: exportData_def)
qed

lemma watched_v1_data:
  "engagementData_v1 watched_v1 =
     [(''p-0'', \<lparr>element_v1 = para 0, timeSpent_v1 = 1000, inView_v1 = False,
                lastViewTimestamp = None, index_v1 = 0\<rparr>),
      (''p-1'', \<lparr>element_v1 = para 1, timeSpent_v1 = 4000, inView_v1 = True,
                lastViewTimestamp = Some 4100, index_v1 = 1\<rparr>)]"
  by (simp add: watched_v1_def v1_evals)

subsection \<open>Validation\<close>

lemma validateOption_number:
  assumes "validateOption input (k, \<lparr>type_c = ''number'', min_c = lo, max_c = hi, default_c = dflt\<rparr>) = Inr v"
    and "typeof dflt = ''number''"
  shows "typeof v = ''number''
         \<and> (\<forall>x. v = JNumber (Num x) \<longrightarrow>
               (\<forall>m. lo = Some m \<longrightarrow> of_int m \<le> x) \<and> (\<forall>m. hi = Some m \<longrightarrow> x \<le> of_int m))"
proof -
  obtain v0 where v0: "prop_of input k = v0" by simp
  show ?thesis
    using assms
    by (cases v0; cases lo; cases hi) (auto simp: validateOption_def v0 Let_def split: if_splits)
qed

lemma validateOptions_schema:
  assumes "validateOptions input validationSchema = Inr opts"
  obtains v1 v2 v3 v4 v5 where
    "opts = [(''minTimeThreshold'', v1), (''samplingRate'', v2), (''visibilityThreshold'', v3),
             (''colors'', v4), (''heatmapContainer'', v5)]"
    "validateOption input (validationSchema ! 0) = Inr v1"
    "validateOption input (validationSchema ! 1) = Inr v2"
    "validateOption input (validationSchema ! 2) = Inr v3"
    "validateOption input (validationSchema ! 3) = Inr v4"
    "validateOption input (validationSchema ! 4) = Inr v5"
  using assms
  by (auto simp: validationSchema_def split: sum.splits)


lemma newTracker_options:
  assumes "newTracker input dataset = Inr s"
  shows "typeof (prop_of (options s) ''minTimeThreshold'') = ''number''
         \<and> (\<forall>x. prop_of (options s) ''minTimeThreshold'' = JNumber (Num x) \<longrightarrow> 0 \<le> x)
         \<and> typeof (prop_of (options s) ''samplingRate'') = ''number''
         \<and> (\<forall>x. prop_of (options s) ''samplingRate'' = JNumber (Num x) \<longrightarrow> 10 \<le> x \<and> x \<le> 1000)
         \<and> typeof (prop_of (options s) ''visibilityThreshold'') = ''number''
         \<and> (\<forall>x. prop_of (options s) ''visibilityThreshold'' = JNumber (Num x) \<longrightarrow> 0 \<le> x \<and> x \<le> 1)"
proof -
  obtain opts where o: "validateOptions input validationSchema = Inr opts" and s: "options s = opts"
    using assms by (auto simp: newTracker_def initializeState_def split: sum.splits)
  from o obtain v1 v2 v3 v4 v5 where
    opts: "opts = [(''minTimeThreshold'', v1), (''samplingRate'', v2), (''visibilityThreshold'', v3),
             (''colors'', v4), (''heatmapContainer'', v5)]"
    and v: "validateOption input (validationSchema ! 0) = Inr v1"
      "validateOption input (validationSchema ! 1) = Inr v2"
      "validateOption input (validationSchema ! 2) = Inr v3"
    by (rule validateOptions_schema)
  have 1: "typeof v1 = ''number'' \<and> (\<forall>x. v1 = JNumber (Num x) \<longrightarrow> 0 \<le> x)"
    using validateOption_number [of input "''minTimeThreshold''" "Some 0" None "JNumber (Num 1000)" v1]
      v(1) by (simp add: validationSchema_def)
  have 2: "typeof v2 = ''number'' \<and> (\<forall>x. v2 = JNumber (Num x) \<longrightarrow> 10 \<le> x \<and> x \<le> 1000)"
    using validateOption_number [of input "''samplingRate''" "Some 10" "Some 1000" "JNumber (Num 200)" v2]
      v(2) by (simp add: validationSchema_def)
  have 3: "typeof v3 = ''number'' \<and> (\<forall>x. v3 = JNumber (Num x) \<longrightarrow> 0 \<le> x \<and> x \<le> 1)"
    using validateOption_number [of input "''visibilityThreshold''" "Some 0" "Some 1"
        "JNumber (Num (1 / 2))" v3]
      v(3) by (simp add: validationSchema_def)
  show ?thesis using 1 2 3 by (simp add: s opts prop_of_def)
qed

lemma schema_nth:
  "validationSchema ! 0 = (''minTimeThreshold'',
         \<lparr>type_c = ''number'', min_c = Some 0, max_c = None, default_c = JNumber (Num 1000)\<rparr>)"
  "validationSchema ! 1 = (''samplingRate'',
         \<lparr>type_c = ''number'', min_c = Some 10, max_c = Some 1000, default_c = JNumber (Num 200)\<rparr>)"
  "validationSchema ! 2 = (''visibilityThreshold'',
         \<lparr>type_c = ''number'', min_c = Some 0, max_c = Some 1, default_c = JNumber (Num (1 / 2))\<rparr>)"
  "validationSchema ! 3 = (''colors'',
         \<lparr>type_c = ''object'', min_c = None, max_c = None,
          default_c = JObject [(''low'', JString ''#C6E2FF''), (''medium'', JString ''#4F97FF''),
                               (''high'', JString ''#0047AB'')]\<rparr>)"
  "validationSchema ! 4 = (''heatmapContainer'',
         \<lparr>type_c = ''string'', min_c = None, max_c = None, default_c = Null\<rparr>)"
  by (simp_all add: validationSchema_def)

lemma validateOptions_five:
  "validateOptions input validationSchema =
     (case validateOption input (validationSchema ! 0) of Inl e \<Rightarrow> Inl e | Inr v0 \<Rightarrow>
      case validateOption input (validationSchema ! 1) of Inl e \<Rightarrow> Inl e | Inr v1 \<Rightarrow>
      case validateOption input (validationSchema ! 2) of Inl e \<Rightarrow> Inl e | Inr v2 \<Rightarrow>
      case validateOption input (validationSchema ! 3) of Inl e \<Rightarrow> Inl e | Inr v3 \<Rightarrow>
      case validateOption input (validationSchema ! 4) of Inl e \<Rightarrow> Inl e | Inr v4 \<Rightarrow>
        Inr [(''minTimeThreshold'', v0), (''samplingRate'', v1), (''visibilityThreshold'', v2),
             (''colors'', v3), (''heatmapContainer'', v4)])"
  by (simp add: validationSchema_def split: sum.splits)

lemma admitted_number:
  assumes "admits \<lparr>type_c = ''number'', min_c = lo, max_c = hi, default_c = JNumber (Num dflt)\<rparr>
             (prop_of input k)"
    and "admits \<lparr>type_c = ''number'', min_c = lo, max_c = hi, default_c = JNumber (Num dflt)\<rparr>
             (JNumber (Num dflt))"
  shows "validateOption input
           (k, \<lparr>type_c = ''number'', min_c = lo, max_c = hi, default_c = JNumber (Num dflt)\<rparr>)
         = Inr (if prop_of input k = Undefined \<or> prop_of input k = Null
                then JNumber (Num dflt) else prop_of input k)"
proof -
  let ?cfg = "\<lparr>type_c = ''number'', min_c = lo, max_c = hi, default_c = JNumber (Num dflt)\<rparr>"
  obtain v0 where v0: "prop_of input k = v0" by simp
  show ?thesis
  proof (cases v0)
    case (JNumber n)
    show ?thesis
    proof (cases n)
      case NaN
      then show ?thesis using assms(1) JNumber by (simp add: v0)
    next
      case (Num x)
      then show ?thesis
        using assms(1) JNumber
        by (cases lo; cases hi) (auto simp: validateOption_def v0 Let_def)
    qed
  next
    case Undefined
    then show ?thesis
      using assms(2) by (cases lo; cases hi) (auto simp: validateOption_def v0 Let_def)
  next
    case Null
    then show ?thesis
      using assms(2) by (cases lo; cases hi) (auto simp: validateOption_def v0 Let_def)
  qed (use assms(1) in \<open>simp_all add: v0\<close>)
qed

lemma admitted_string:
  assumes "admits \<lparr>type_c = ''string'', min_c = None, max_c = None, default_c = Null\<rparr>
             (prop_of input k)"
  shows "validateOption input
           (k, \<lparr>type_c = ''string'', min_c = None, max_c = None, default_c = Null\<rparr>)
         = Inr (if prop_of input k = Undefined \<or> prop_of input k = Null
                then Null else prop_of input k)"
proof -
  obtain v0 where v0: "prop_of input k = v0" by simp
  show ?thesis
  proof (cases v0)
    case (JNumber n)
    then show ?thesis using assms by (cases n) (simp_all add: v0)
  qed (use assms in \<open>simp_all add: v0 validateOption_def\<close>)
qed

lemma admitted_object:
  assumes "admits \<lparr>type_c = ''object'', min_c = None, max_c = None, default_c = dflt\<rparr>
             (prop_of input k)"
  shows "validateOption input
           (k, \<lparr>type_c = ''object'', min_c = None, max_c = None, default_c = dflt\<rparr>)
         = Inr (if prop_of input k = Undefined \<or> prop_of input k = Null
                then dflt else spread dflt (prop_of input k))"
proof -
  obtain v0 where v0: "prop_of input k = v0" by simp
  show ?thesis
  proof (cases v0)
    case (JNumber n)
    then show ?thesis using assms by (cases n) (simp_all add: v0)
  qed (use assms in \<open>simp_all add: v0 validateOption_def\<close>)
qed

lemma admitted_values:
  "admitted input ''minTimeThreshold''
   = (prop_of input ''minTimeThreshold'' = Undefined \<or> prop_of input ''minTimeThreshold'' = Null
      \<or> (\<exists>x. prop_of input ''minTimeThreshold'' = JNumber (Num x) \<and> 0 \<le> x))"
  "admitted input ''samplingRate''
   = (prop_of input ''samplingRate'' = Undefined \<or> prop_of input ''samplingRate'' = Null
      \<or> (\<exists>x. prop_of input ''samplingRate'' = JNumber (Num x) \<and> 10 \<le> x \<and> x \<le> 1000))"
  "admitted input ''visibilityThreshold''
   = (prop_of input ''visibilityThreshold'' = Undefined
      \<or> prop_of input ''visibilityThreshold'' = Null
      \<or> (\<exists>x. prop_of input ''visibilityThreshold'' = JNumber (Num x) \<and> 0 \<le> x \<and> x \<le> 1))"
  "admitted input ''colors''
   = (prop_of input ''colors'' = Undefined \<or> prop_of input ''colors'' = Null
      \<or> (\<exists>kvs. prop_of input ''colors'' = JObject kvs))"
  "admitted input ''heatmapContainer''
   = (prop_of input ''heatmapContainer'' = Undefined \<or> prop_of input ''heatmapContainer'' = Null
      \<or> (\<exists>str. prop_of input ''heatmapContainer'' = JString str))"
proof -
  have n: "admits \<lparr>type_c = ''number'', min_c = lo, max_c = hi, default_c = dflt\<rparr> v
           = (v = Undefined \<or> v = Null
              \<or> (\<exists>x. v = JNumber (Num x)
                      \<and> (case lo of None \<Rightarrow> True | Some m \<Rightarrow> of_int m \<le> x)
                      \<and> (case hi of None \<Rightarrow> True | Some m \<Rightarrow> x \<le> of_int m)))"
    for lo hi dflt v
  proof (cases v)
    case (JNumber n)
    then show ?thesis by (cases n) simp_all
  qed simp_all
  have o: "admits \<lparr>type_c = ''object'', min_c = lo, max_c = hi, default_c = dflt\<rparr> v
           = (v = Undefined \<or> v = Null \<or> (\<exists>kvs. v = JObject kvs))"
    for lo hi dflt v
  proof (cases v)
    case (JNumber n)
    then show ?thesis by (cases n) simp_all
  qed simp_all
  have t: "admits \<lparr>type_c = ''string'', min_c = lo, max_c = hi, default_c = dflt\<rparr> v
           = (v = Undefined \<or> v = Null \<or> (\<exists>str. v = JString str))"
    for lo hi dflt v
  proof (cases v)
    case (JNumber n)
    then show ?thesis by (cases n) simp_all
  qed simp_all
  show "admitted input ''minTimeThreshold''
   = (prop_of input ''minTimeThreshold'' = Undefined \<or> prop_of input ''minTimeThreshold'' = Null
      \<or> (\<exists>x. prop_of input ''minTimeThreshold'' = JNumber (Num x) \<and> 0 \<le> x))"
    by (simp add: admitted_def validationSchema_def n)
  show "admitted input ''samplingRate''
   = (prop_of input ''samplingRate'' = Undefined \<or> prop_of input ''samplingRate'' = Null
      \<or> (\<exists>x. prop_of input ''samplingRate'' = JNumber (Num x) \<and> 10 \<le> x \<and> x \<le> 1000))"
    by (simp add: admitted_def validationSchema_def n)
  show "admitted input ''visibilityThreshold''
   = (prop_of input ''visibilityThreshold'' = Undefined
      \<or> prop_of input ''visibilityThreshold'' = Null
      \<or> (\<exists>x. prop_of input ''visibilityThreshold'' = JNumber (Num x) \<and> 0 \<le> x \<and> x \<le> 1))"
    by (simp add: admitted_def validationSchema_def n)
  show "admitted input ''colors''
   = (prop_of input ''colors'' = Undefined \<or> prop_of input ''colors'' = Null
      \<or> (\<exists>kvs. prop_of input ''colors'' = JObject kvs))"
    by (simp add: admitted_def validationSchema_def o)
  show "admitted input ''heatmapContainer''
   = (prop_of input ''heatmapContainer'' = Undefined \<or> prop_of input ''heatmapContainer'' = Null
      \<or> (\<exists>str. prop_of input ''heatmapContainer'' = JString str))"
    by (simp add: admitted_def validationSchema_def t)
qed

lemma admitted_schema:
  "admitted input ''minTimeThreshold'' \<Longrightarrow>
   validateOption input (validationSchema ! 0)
   = Inr (if prop_of input ''minTimeThreshold'' = Undefined \<or> prop_of input ''minTimeThreshold'' = Null
          then JNumber (Num 1000) else prop_of input ''minTimeThreshold'')"
  "admitted input ''samplingRate'' \<Longrightarrow>
   validateOption input (validationSchema ! 1)
   = Inr (if prop_of input ''samplingRate'' = Undefined \<or> prop_of input ''samplingRate'' = Null
          then JNumber (Num 200) else prop_of input ''samplingRate'')"
  "admitted input ''visibilityThreshold'' \<Longrightarrow>
   validateOption input (validationSchema ! 2)
   = Inr (if prop_of input ''visibilityThreshold'' = Undefined
             \<or> prop_of input ''visibilityThreshold'' = Null
          then JNumber (Num (1 / 2)) else prop_of input ''visibilityThreshold'')"
  "admitted input ''colors'' \<Longrightarrow>
   validateOption input (validationSchema ! 3)
   = Inr (if prop_of input ''colors'' = Undefined \<or> prop_of input ''colors'' = Null
          then default_c (snd (validationSchema ! 3))
          else spread (default_c (snd (validationSchema ! 3))) (prop_of input ''colors''))"
  "admitted input ''heatmapContainer'' \<Longrightarrow>
   validateOption input (validationSchema ! 4)
   = Inr (if prop_of input ''heatmapContainer'' = Undefined
             \<or> prop_of input ''heatmapContainer'' = Null
          then Null else prop_of input ''heatmapContainer'')"
proof -
  show "admitted input ''minTimeThreshold'' \<Longrightarrow>
   validateOption input (validationSchema ! 0)
   = Inr (if prop_of input ''minTimeThreshold'' = Undefined \<or> prop_of input ''minTimeThreshold'' = Null
          then JNumber (Num 1000) else prop_of input ''minTimeThreshold'')"
    using admitted_number [of "Some 0" None 1000 input "''minTimeThreshold''"]
    by (simp add: admitted_def validationSchema_def)
  show "admitted input ''samplingRate'' \<Longrightarrow>
   validateOption input (validationSchema ! 1)
   = Inr (if prop_of input ''samplingRate'' = Undefined \<or> prop_of input ''samplingRate'' = Null
          then JNumber (Num 200) else prop_of input ''samplingRate'')"
    using admitted_number [of "Some 10" "Some 1000" 200 input "''samplingRate''"]
    by (simp add: admitted_def validationSchema_def)
  show "admitted input ''visibilityThreshold'' \<Longrightarrow>
   validateOption input (validationSchema ! 2)
   = Inr (if prop_of input ''visibilityThreshold'' = Undefined
             \<or> prop_of input ''visibilityThreshold'' = Null
          then JNumber (Num (1 / 2)) else prop_of input ''visibilityThreshold'')"
    using admitted_number [of "Some 0" "Some 1" "1 / 2" input "''visibilityThreshold''"]
    by (simp add: admitted_def validationSchema_def)
  show "admitted input ''colors'' \<Longrightarrow>
   validateOption input (validationSchema ! 3)
   = Inr (if prop_of input ''colors'' = Undefined \<or> prop_of input ''colors'' = Null
          then default_c (snd (validationSchema ! 3))
          else spread (default_c (snd (validationSchema ! 3))) (prop_of input ''colors''))"
    using admitted_object [of _ input "''colors''"]
    by (simp add: admitted_def validationSchema_def)
  show "admitted input ''heatmapContainer'' \<Longrightarrow>
   validateOption input (validationSchema ! 4)
   = Inr (if prop_of input ''heatmapContainer'' = Undefined
             \<or> prop_of input ''heatmapContainer'' = Null
          then Null else prop_of input ''heatmapContainer'')"
    using admitted_string [of input "''heatmapContainer''"]
    by (simp add: admitted_def validationSchema_def)
qed

lemma violation_schema:
  "prop_of input ''minTimeThreshold'' = JNumber (Num x) \<Longrightarrow> x < 0 \<Longrightarrow>
   validateOption input (validationSchema ! 0)
   = Inl (RangeError ''minTimeThreshold cannot be less than 0'')"
  "prop_of input ''samplingRate'' = JNumber (Num x) \<Longrightarrow> x < 10 \<Longrightarrow>
   validateOption input (validationSchema ! 1)
   = Inl (RangeError ''samplingRate cannot be less than 10'')"
  "prop_of input ''samplingRate'' = JNumber (Num x) \<Longrightarrow> x > 1000 \<Longrightarrow>
   validateOption input (validationSchema ! 1)
   = Inl (RangeError ''samplingRate cannot be greater than 1000'')"
  "prop_of input ''visibilityThreshold'' = JNumber (Num x) \<Longrightarrow> x < 0 \<Longrightarrow>
   validateOption input (validationSchema ! 2)
   = Inl (RangeError ''visibilityThreshold cannot be less than 0'')"
  "prop_of input ''visibilityThreshold'' = JNumber (Num x) \<Longrightarrow> x > 1 \<Longrightarrow>
   validateOption input (validationSchema ! 2)
   = Inl (RangeError ''visibilityThreshold cannot be greater than 1'')"
  by (simp_all add: validationSchema_def validateOption_def Let_def)

lemma mistyped_schema:
  "prop_of input ''minTimeThreshold'' = v \<Longrightarrow> v \<noteq> Undefined \<Longrightarrow> v \<noteq> Null \<Longrightarrow>
   typeof v \<noteq> ''number'' \<Longrightarrow>
   validateOption input (validationSchema ! 0) = Inl (TypeError ''minTimeThreshold must be number'')"
  "prop_of input ''samplingRate'' = v \<Longrightarrow> v \<noteq> Undefined \<Longrightarrow> v \<noteq> Null \<Longrightarrow>
   typeof v \<noteq> ''number'' \<Longrightarrow>
   validateOption input (validationSchema ! 1) = Inl (TypeError ''samplingRate must be number'')"
  "prop_of input ''visibilityThreshold'' = v \<Longrightarrow> v \<noteq> Undefined \<Longrightarrow> v \<noteq> Null \<Longrightarrow>
   typeof v \<noteq> ''number'' \<Longrightarrow>
   validateOption input (validationSchema ! 2)
   = Inl (TypeError ''visibilityThreshold must be number'')"
  "prop_of input ''colors'' = v \<Longrightarrow> truthy v \<Longrightarrow> typeof v \<noteq> ''object'' \<Longrightarrow>
   validateOption input (validationSchema ! 3) = Inl (TypeError ''colors must be an object'')"
  "prop_of input ''heatmapContainer'' = v \<Longrightarrow> v \<noteq> Undefined \<Longrightarrow> v \<noteq> Null \<Longrightarrow>
   typeof v \<noteq> ''string'' \<Longrightarrow>
   validateOption input (validationSchema ! 4)
   = Inl (TypeError ''heatmapContainer must be string'')"
  by (simp_all add: validationSchema_def validateOption_def Let_def)

lemma newTracker_first:
  "validateOption input (validationSchema ! 0) = Inl e \<Longrightarrow> newTracker input dataset = Inl e"
  "validateOption input (validationSchema ! 0) = Inr v0 \<Longrightarrow>
   validateOption input (validationSchema ! 1) = Inl e \<Longrightarrow> newTracker input dataset = Inl e"
  "validateOption input (validationSchema ! 0) = Inr v0 \<Longrightarrow>
   validateOption input (validationSchema ! 1) = Inr v1 \<Longrightarrow>
   validateOption input (validationSchema ! 2) = Inl e \<Longrightarrow> newTracker input dataset = Inl e"
  "validateOption input (validationSchema ! 0) = Inr v0 \<Longrightarrow>
   validateOption input (validationSchema ! 1) = Inr v1 \<Longrightarrow>
   validateOption input (validationSchema ! 2) = Inr v2 \<Longrightarrow>
   validateOption input (validationSchema ! 3) = Inl e \<Longrightarrow> newTracker input dataset = Inl e"
  "validateOption input (validationSchema ! 0) = Inr v0 \<Longrightarrow>
   validateOption input (validationSchema ! 1) = Inr v1 \<Longrightarrow>
   validateOption input (validationSchema ! 2) = Inr v2 \<Longrightarrow>
   validateOption input (validationSchema ! 3) = Inr v3 \<Longrightarrow>
   validateOption input (validationSchema ! 4) = Inl e \<Longrightarrow> newTracker input dataset = Inl e"
  "validateOption input (validationSchema ! 0) = Inr v0 \<Longrightarrow>
   validateOption input (validationSchema ! 1) = Inr v1 \<Longrightarrow>
   validateOption input (validationSchema ! 2) = Inr v2 \<Longrightarrow>
   validateOption input (validationSchema ! 3) = Inr v3 \<Longrightarrow>
   validateOption input (validationSchema ! 4) = Inr v4 \<Longrightarrow>
   newTracker input dataset
   = Inr ((initializeState
             [(''minTimeThreshold'', v0), (''samplingRate'', v1), (''visibilityThreshold'', v2),
              (''colors'', v3), (''heatmapContainer'', v4)] dataset)\<lparr>domListeners := True\<rparr>)"
  by (simp_all add: newTracker_def validateOptions_five)

lemmas ctor_evals =
  newTracker_def validationSchema_def validateOption_def Let_def

subsection \<open>Teardown\<close>

lemma destroyBody_listeners: "listeners (snd (destroyBody faulty s)) = listeners s"
proof -
  let ?I = "\<lambda>s'::tracker. listeners s' = listeners s"
  show ?thesis
    unfolding destroyBody_def
    by (rule steps_preserve [where I = ?I])
       (auto simp: external_def stopTracking_def emit_def split: if_splits)
qed

lemma emit_plain:
  "name \<noteq> ''error'' \<Longrightarrow> emitted (snd (emit name s)) = emitted s @ [name]"
  by (simp add: emit_def)

lemma emit_error_heard:
  "listeners s ''error'' \<noteq> [] \<Longrightarrow>
   emitted (snd (emit ''error'' s)) = emitted s @ [''error'']
   \<and> (fst (emit ''error'' s) = None) = (Throws \<notin> set (listeners s ''error''))"
  by (simp add: emit_def)

lemma emit_error_unheard:
  "listeners s ''error'' = [] \<Longrightarrow> fst (emit ''error'' s) = Some UnhandledError"
  by (simp add: emit_def)

lemma destroyBody_success:
  assumes "fst (destroyBody faulty s) = None"
  shows "last (emitted (snd (destroyBody faulty s))) = ''destroyed''"
proof -
  let ?fs = "[stopTracking,
        \<lambda>s. if observer s
             then external (faulty DisconnectObserver) (\<lambda>s. s\<lparr>observer := False\<rparr>) s
             else (None, s),
        \<lambda>s. if resizeObserver s
             then external (faulty DisconnectResize) (\<lambda>s. s\<lparr>resizeObserver := False\<rparr>) s
             else (None, s),
        \<lambda>s. if mutationObserver s
             then external (faulty DisconnectMutation) (\<lambda>s. s\<lparr>mutationObserver := False\<rparr>) s
             else (None, s),
        external (faulty RemoveListeners) (\<lambda>s. s\<lparr>domListeners := False\<rparr>),
        \<lambda>s. if heatmapContainer s then external (faulty RemoveHeatmap) (\<lambda>s. s) s else (None, s),
        \<lambda>s. (None, s\<lparr>heatmapContainer := False, resizeTimeout := False, paragraphs := [],
                      engagementData := Map.empty, heatmapUpdateRequest := False\<rparr>)]"
  have b: "destroyBody faulty s = steps (?fs @ [emit ''destroyed'']) s"
    by (simp add: destroyBody_def)
  from assms have "fst (steps (?fs @ [emit ''destroyed'']) s) = None" by (simp only: b)
  from steps_snoc_ok [OF this]
  have "steps (?fs @ [emit ''destroyed'']) s = emit ''destroyed'' (snd (steps ?fs s))" by blast
  then have "destroyBody faulty s = emit ''destroyed'' (snd (steps ?fs s))" by (simp only: b)
  then show ?thesis by (simp add: emit_plain)
qed

lemmas destroy_evals =
  destroy_def destroyBody_def andThen_def external_def stopTracking_def emit_def addListener_def

subsection \<open>The first version\<close>

lemma flush_v1_closed: "\<not> (inView_v1 (flush_v1 now d) \<and> live (lastViewTimestamp (flush_v1 now d)))"
  by (simp add: flush_v1_def)

section \<open>C8: a visibility report and the visible ratio\<close>

text \<open>
  C8, as stated, fails: \<open>handleIntersection\<close> returns at once while the tab is hidden
  (line 689), so a report delivered then changes nothing. With the tab hidden at 50, the
  report of ratio 4/5 for the first paragraph at 100 leaves its \<open>visibleRatio\<close> at 0.
\<close>

theorem report_while_hidden_ignored:
  "map_option visibleRatio
     (engagementData
        (handleIntersection 100 [seen 0 (4 / 5)] (snd (handleVisibilityChange False 50 engine)))
        (para 0))
   = Some 0"
  by (simp add: engine_eq evals)

text \<open>
  C8, amended: while the tab is visible, a delivery of reports leaves the record of every
  tracked element it reports on with \<open>visibleRatio\<close> equal to the ratio of the last report
  for that element, whatever the ratio, the threshold and the old and new \<open>inView\<close> are.
  (A delivery while the tab is hidden changes nothing; the first version stores no ratio.)
\<close>

theorem report_sets_ratio:
  assumes "tabVisible s" and "engagementData s (target en) \<noteq> None"
    and "\<forall>x \<in> set rest. target x \<noteq> target en"
  shows "map_option visibleRatio
           (engagementData (handleIntersection now (es @ en # rest) s) (target en))
         = Some (intersectionRatio en)"
proof -
  let ?s1 = "fold (intersectionStep now) es s"
  have "engagementData ?s1 (target en) \<noteq> None"
    using assms(2) by (simp add: fold_intersectionStep_dom)
  then have "map_option visibleRatio (engagementData (intersectionStep now en ?s1) (target en))
             = Some (intersectionRatio en)"
    by (rule intersectionStep_ratio)
  then show ?thesis
    using assms(1,3) by (simp add: handleIntersection_def fold_intersectionStep_other)
qed

theorem report_sets_ratio_witness:
  "tabVisible engine \<and> engagementData engine (target (seen 0 (1 / 10))) \<noteq> None
   \<and> target (seen 1 1) \<noteq> target (seen 0 (1 / 10))
   \<and> map_option visibleRatio
        (engagementData
           (handleIntersection 100 ([seen 0 (4 / 5)] @ seen 0 (1 / 10) # [seen 1 1]) engine)
           (target (seen 0 (1 / 10))))
      = Some (1 / 10)"
proof -
  have t: "tabVisible engine" by (simp add: engine_eq)
  have d: "engagementData engine (target (seen 0 (1 / 10))) \<noteq> None"
    by (simp add: seen_def engine_eq)
  have r: "\<forall>x \<in> set [seen 1 1]. target x \<noteq> target (seen 0 (1 / 10))"
    by (simp add: seen_def)
  show ?thesis
    using t d r report_sets_ratio [OF t d r, of 100 "[seen 0 (4 / 5)]"]
    by (simp add: seen_def)
qed

section \<open>C2: what stopping does\<close>

text \<open>
  C2, as stated, fails on the second version: its \<open>stopTracking\<close> (lines 756-766) touches
  no record. Tracking starts at 100, the first paragraph is reported fully visible at 150
  (50 credited); after \<open>stopTracking\<close> its record is still in view with its
  \<open>lastUpdate\<close> at 150, and nothing was credited for the time since.
\<close>

theorem stop_leaves_interval_open:
  "engagementData (snd (stopTracking (run [Start 100, Report 150 [seen 0 1]] engine))) (para 0)
   = Some \<lparr>visibleRatio = 1, timeSpent = 50, weightedTime = 50, lastUpdate = Some 150,
            inView = True\<rparr>"
  by (simp add: engine_eq evals)

text \<open>
  C2, amended. The first version's \<open>stopTracking\<close>, called while tracking, credits every
  record that is in view with a live timestamp with \<open>now - lastViewTimestamp\<close>, clears
  the timestamp and the flag, leaves the other records as they are, and so leaves no record
  in view with a live timestamp. The second version's \<open>stopTracking\<close>, called while
  tracking, clears \<open>isTracking\<close> and leaves every record as it is; the next
  \<open>startTracking\<close> stamps the record of every tracked paragraph with the start instant.
\<close>

theorem stop_flush:
  assumes "isTracking_v1 s1" and "isTracking s"
  shows "(\<not> isTracking_v1 (stopTracking_v1 now s1)
          \<and> length (engagementData_v1 (stopTracking_v1 now s1)) = length (engagementData_v1 s1)
          \<and> (\<forall>i < length (engagementData_v1 s1).
                fst (engagementData_v1 (stopTracking_v1 now s1) ! i) = fst (engagementData_v1 s1 ! i)
                \<and> snd (engagementData_v1 (stopTracking_v1 now s1) ! i)
                    = (let d = snd (engagementData_v1 s1 ! i) in
                       if inView_v1 d \<and> live (lastViewTimestamp d)
                       then d\<lparr>timeSpent_v1 := timeSpent_v1 d + (now - the (lastViewTimestamp d)),
                              lastViewTimestamp := None, inView_v1 := False\<rparr>
                       else d))
          \<and> (\<forall>kd \<in> set (engagementData_v1 (stopTracking_v1 now s1)).
                \<not> (inView_v1 (snd kd) \<and> live (lastViewTimestamp (snd kd)))))
         \<and> (\<not> isTracking (snd (stopTracking s))
            \<and> engagementData (snd (stopTracking s)) = engagementData s
            \<and> (\<forall>p \<in> set (paragraphs s). \<forall>d.
                  engagementData (snd (startTracking t (snd (stopTracking s)))) p = Some d
                  \<longrightarrow> lastUpdate d = Some t))"
proof -
  have v1: "engagementData_v1 (stopTracking_v1 now s1)
              = map (\<lambda>kv. (fst kv, flush_v1 now (snd kv))) (engagementData_v1 s1)"
    and off: "\<not> isTracking_v1 (stopTracking_v1 now s1)"
    using assms(1) by (simp_all add: stopTracking_v1_def)
  have a: "\<forall>i < length (engagementData_v1 s1).
             fst (engagementData_v1 (stopTracking_v1 now s1) ! i) = fst (engagementData_v1 s1 ! i)
             \<and> snd (engagementData_v1 (stopTracking_v1 now s1) ! i)
                 = (let d = snd (engagementData_v1 s1 ! i) in
                    if inView_v1 d \<and> live (lastViewTimestamp d)
                    then d\<lparr>timeSpent_v1 := timeSpent_v1 d + (now - the (lastViewTimestamp d)),
                           lastViewTimestamp := None, inView_v1 := False\<rparr>
                    else d)"
    by (simp add: v1 flush_v1_def Let_def)
  have b: "\<forall>kd \<in> set (engagementData_v1 (stopTracking_v1 now s1)).
             \<not> (inView_v1 (snd kd) \<and> live (lastViewTimestamp (snd kd)))"
    unfolding v1 using flush_v1_closed by auto
  have c: "\<forall>p \<in> set (paragraphs s). \<forall>d.
             engagementData (snd (startTracking t (snd (stopTracking s)))) p = Some d
             \<longrightarrow> lastUpdate d = Some t"
    using startTracking_stamps [of "snd (stopTracking s)" _ t] by simp
  show ?thesis using off v1 a b c by simp
qed

theorem stop_flush_witness:
  "isTracking_v1 (handleIntersection_v1 100 [seen 0 1] engine_v1)
   \<and> isTracking (run [Start 100, Report 150 [seen 0 1]] engine)
   \<and> \<not> isTracking_v1 (stopTracking_v1 400 (handleIntersection_v1 100 [seen 0 1] engine_v1))
   \<and> map (\<lambda>kd. (timeSpent_v1 (snd kd), inView_v1 (snd kd), lastViewTimestamp (snd kd)))
        (engagementData_v1 (stopTracking_v1 400 (handleIntersection_v1 100 [seen 0 1] engine_v1)))
      = [(300, False, None), (0, False, None)]
   \<and> engagementData (snd (stopTracking (run [Start 100, Report 150 [seen 0 1]] engine)))
      = engagementData (run [Start 100, Report 150 [seen 0 1]] engine)"
proof -
  have h1: "isTracking_v1 (handleIntersection_v1 100 [seen 0 1] engine_v1)"
    by (simp add: v1_evals)
  have h2: "isTracking (run [Start 100, Report 150 [seen 0 1]] engine)"
    by (simp add: engine_eq evals)
  have v: "map (\<lambda>kd. (timeSpent_v1 (snd kd), inView_v1 (snd kd), lastViewTimestamp (snd kd)))
             (engagementData_v1 (stopTracking_v1 400 (handleIntersection_v1 100 [seen 0 1] engine_v1)))
           = [(300, False, None), (0, False, None)]"
    by (simp add: v1_evals)
  from stop_flush [OF h1 h2, of 400 500]
  have "\<not> isTracking_v1 (stopTracking_v1 400 (handleIntersection_v1 100 [seen 0 1] engine_v1))"
    and "engagementData (snd (stopTracking (run [Start 100, Report 150 [seen 0 1]] engine)))
         = engagementData (run [Start 100, Report 150 [seen 0 1]] engine)"
    by blast+
  with h1 h2 v show ?thesis by blast
qed

section \<open>C4: the weighted time never exceeds the time spent\<close>

text \<open>
  C4: in every state that a tracker built by the constructor reaches, by any sequence of
  initialisations, visibility reports, animation frames, batches of any size, exports,
  starts, stops, changes of the host's visibility, changes of the document, heatmap calls
  and teardowns, every record has \<open>weightedTime \<le> timeSpent\<close>. The browser's
  guarantees are the hypothesis \<open>wellTimed\<close>: the readings of \<open>performance.now()\<close> never
  decrease and every reported intersection ratio lies in \<open>[0, 1]\<close>.
\<close>

theorem weighted_le_spent:
  assumes "newTracker input dataset = Inr s0" and "wellTimed clock evs"
    and "engagementData (run evs s0) e = Some d"
  shows "weightedTime d \<le> timeSpent d"
proof -
  have "sound clock s0" using newTracker_empty [OF assms(1)] by (simp add: sound_def)
  then obtain c' where "sound c' (run evs s0)" using assms(2) run_sound by blast
  then have "soundRecord c' d" using assms(3) by (simp add: sound_def)
  then show ?thesis by (simp add: soundRecord_def)
qed

theorem weighted_le_spent_witness:
  "newTracker [] (\<lambda>e. None) = Inr fresh
   \<and> wellTimed 0 [Init 1700 (Some [para 0, para 1]) False, Start 100,
                   Report 150 [seen 0 (1 / 2)], Export 200]
   \<and> engagementData
        (run [Init 1700 (Some [para 0, para 1]) False, Start 100,
              Report 150 [seen 0 (1 / 2)], Export 200] fresh) (para 0)
      = Some \<lparr>visibleRatio = 1 / 2, timeSpent = 75, weightedTime = 50, lastUpdate = Some 150,
               inView = True\<rparr>
   \<and> weightedTime \<lparr>visibleRatio = 1 / 2, timeSpent = 75, weightedTime = 50,
                    lastUpdate = Some 150, inView = True\<rparr>
      \<le> timeSpent \<lparr>visibleRatio = 1 / 2, timeSpent = 75, weightedTime = 50,
                     lastUpdate = Some 150, inView = True\<rparr>"
proof -
  have h1: "newTracker [] (\<lambda>e. None) = Inr fresh"
    by (simp add: newTracker_def validationSchema_def validateOption_def prop_of_def
        fresh_def defaultOptions_def)
  have h2: "wellTimed 0 [Init 1700 (Some [para 0, para 1]) False, Start 100,
                         Report 150 [seen 0 (1 / 2)], Export 200]"
    by (simp add: seen_def)
  have "run [Init 1700 (Some [para 0, para 1]) False, Start 100,
             Report 150 [seen 0 (1 / 2)], Export 200] fresh
        = run [Start 100, Report 150 [seen 0 (1 / 2)], Export 200] engine"
    by (simp add: run_def engine_def)
  then have h3: "engagementData
        (run [Init 1700 (Some [para 0, para 1]) False, Start 100,
              Report 150 [seen 0 (1 / 2)], Export 200] fresh) (para 0)
      = Some \<lparr>visibleRatio = 1 / 2, timeSpent = 75, weightedTime = 50, lastUpdate = Some 150,
               inView = True\<rparr>"
    by (simp add: engine_eq evals)
  from weighted_le_spent [OF h1 h2 h3] h1 h2 h3 show ?thesis by blast
qed

section \<open>C7: the frame-batched strategy\<close>

text \<open>
  C7 does not hold of the code: \<open>trackingFrame\<close> computes the batch size from
  \<open>this.lastFrameTime\<close> (line 780), which no line of the class assigns. The measured frame
  time is \<open>NaN\<close>, and so is the batch size; \<open>processBatch(NaN)\<close> runs its loop not at all
  and sets \<open>lastProcessedIndex\<close> to \<open>NaN\<close>. In every state a constructed tracker reaches,
  an animation frame leaves every record as it is: no element is processed or revisited.
\<close>

theorem frame_processes_nothing:
  assumes "newTracker input dataset = Inr s0"
  shows "engagementData (trackingFrame now (run evs s0)) = engagementData (run evs s0)
         \<and> (isTracking (run evs s0) \<and> tabVisible (run evs s0)
              \<longrightarrow> lastProcessedIndex (trackingFrame now (run evs s0)) = IdxNaN)"
proof -
  have "lastFrameTime (run evs s0) = None"
    using assms newTracker_lastFrameTime run_lastFrameTime by blast
  then show ?thesis
    by (auto simp add: trackingFrame_def processBatch_def Let_def split: jsidx.splits)
qed

theorem frame_processes_nothing_witness:
  "newTracker [] (\<lambda>e. None) = Inr fresh
   \<and> isTracking (run [Init 1700 (Some [para 0, para 1]) False, Start 100,
                       Report 100 [seen 0 1, seen 1 1]] fresh)
   \<and> tabVisible (run [Init 1700 (Some [para 0, para 1]) False, Start 100,
                       Report 100 [seen 0 1, seen 1 1]] fresh)
   \<and> engagementData
        (trackingFrame 116 (run [Init 1700 (Some [para 0, para 1]) False, Start 100,
                                 Report 100 [seen 0 1, seen 1 1]] fresh))
      = engagementData (run [Init 1700 (Some [para 0, para 1]) False, Start 100,
                             Report 100 [seen 0 1, seen 1 1]] fresh)
   \<and> lastProcessedIndex
        (trackingFrame 116 (run [Init 1700 (Some [para 0, para 1]) False, Start 100,
                                 Report 100 [seen 0 1, seen 1 1]] fresh))
      = IdxNaN"
proof -
  have h1: "newTracker [] (\<lambda>e. None) = Inr fresh"
    by (simp add: newTracker_def validationSchema_def validateOption_def prop_of_def
        fresh_def defaultOptions_def)
  have r: "run [Init 1700 (Some [para 0, para 1]) False, Start 100,
                Report 100 [seen 0 1, seen 1 1]] fresh
           = run [Start 100, Report 100 [seen 0 1, seen 1 1]] engine"
    by (simp add: run_def engine_def)
  have h2: "isTracking (run [Init 1700 (Some [para 0, para 1]) False, Start 100,
                             Report 100 [seen 0 1, seen 1 1]] fresh)"
    unfolding r by (simp add: engine_eq evals)
  have h3: "tabVisible (run [Init 1700 (Some [para 0, para 1]) False, Start 100,
                             Report 100 [seen 0 1, seen 1 1]] fresh)"
    unfolding r by (simp add: engine_eq evals)
  from frame_processes_nothing [OF h1, of 116 "[Init 1700 (Some [para 0, para 1]) False,
      Start 100, Report 100 [seen 0 1, seen 1 1]]"] h1 h2 h3
  show ?thesis by blast
qed

section \<open>C3: re-stamping and double counting\<close>

text \<open>
  C3 does not hold of the code: the final time update of \<open>exportData\<close> (lines 1004-1011)
  credits \<open>now - lastUpdate\<close> and leaves \<open>lastUpdate\<close> as it is, so a second export
  credits the same span again. Tracking starts at 100 with the first paragraph fully
  visible; exports at 200 and at 300 credit 100 and 200: 300 for the 200 that elapsed,
  and \<open>lastUpdate\<close> is still 100.
\<close>

theorem export_twice_double_counts:
  "engagementData (run [Start 100, Report 100 [seen 0 1], Export 200, Export 300] engine) (para 0)
   = Some \<lparr>visibleRatio = 1, timeSpent = 300, weightedTime = 300, lastUpdate = Some 100,
            inView = True\<rparr>"
  by (simp add: engine_eq evals)

theorem export_twice_double_counts_witness:
  "map_option timeSpent
     (engagementData (run [Start 100, Report 100 [seen 0 1], Export 200, Export 300] engine)
        (para 0))
   = Some 300
   \<and> map_option lastUpdate
        (engagementData (run [Start 100, Report 100 [seen 0 1], Export 200, Export 300] engine)
           (para 0))
      = Some (Some 100)"
  using export_twice_double_counts by simp

section \<open>C1: when time is credited\<close>




section \<open>C5: deregistration and the running maximum\<close>




section \<open>C6: the normalized engagement of an export\<close>

text \<open>
  C6, as stated, fails on the second version: the entries of its \<open>exportData\<close>
  (lines 1019-1029) have no \<open>normalizedEngagement\<close>. The entry exported for the second
  paragraph of \<open>watched\<close> has the six keys of the object literal, and reading
  \<open>normalizedEngagement\<close> from it gives \<open>undefined\<close>.
\<close>

theorem export_without_normalized:
  "map fst (entriesOf (prop_of (fst (exportData 4200 watched)) ''p-1700-1''))
     = [''rawTime'', ''adjustedTime'', ''weightedTime'', ''text'', ''visibleRatio'', ''element'']
   \<and> prop_of (entriesOf (prop_of (fst (exportData 4200 watched)) ''p-1700-1''))
        ''normalizedEngagement''
     = Undefined"
  by (simp add: watched_eq exportData_def exportStep_def keyOf_def prop_of_def Let_def
      defaultOptions_def)

text \<open>
  C6, amended. The first version's \<open>exportData\<close> gives every record (the keys of
  \<open>engagementData\<close> being distinct) a \<open>normalizedEngagement\<close> of \<open>timeSpent / m\<close> when
  \<open>m > 0\<close> and 0 otherwise, \<open>m\<close> being the largest \<open>timeSpent\<close> of the export itself;
  a record that holds \<open>m > 0\<close> gets exactly 1, and when no \<open>timeSpent\<close> is negative every
  value lies in \<open>[0, 1]\<close>. The second version's \<open>exportData\<close> exports no
  \<open>normalizedEngagement\<close>: each entry has the keys \<open>rawTime\<close>, \<open>adjustedTime\<close>,
  \<open>weightedTime\<close>, \<open>text\<close>, \<open>visibleRatio\<close> and \<open>element\<close>, and no other.
\<close>

theorem normalized_engagement:
  assumes "distinct (map fst (engagementData_v1 s1))" and "(k, d) \<in> set (engagementData_v1 s1)"
  shows "(let m = Max (set (map (\<lambda>kd. timeSpent_v1 (snd kd)) (engagementData_v1 s1)));
              n = prop_of (entriesOf (prop_of (exportData_v1 s1) k)) ''normalizedEngagement''
          in n = JNumber (Num (if m > 0 then timeSpent_v1 d / m else 0))
             \<and> (timeSpent_v1 d = m \<and> m > 0 \<longrightarrow> n = JNumber (Num 1))
             \<and> ((\<forall>kd \<in> set (engagementData_v1 s1). 0 \<le> timeSpent_v1 (snd kd))
                  \<longrightarrow> (\<exists>x. n = JNumber (Num x) \<and> 0 \<le> x \<and> x \<le> 1)))
         \<and> (\<forall>kv \<in> set (fst (exportData now s)). map fst (entriesOf (snd kv)) = exportKeys)
         \<and> ''normalizedEngagement'' \<notin> set exportKeys"
proof -
  let ?ts = "map (\<lambda>kd. timeSpent_v1 (snd kd)) (engagementData_v1 s1)"
  let ?m = "Max (set ?ts)"
  let ?n = "prop_of (entriesOf (prop_of (exportData_v1 s1) k)) ''normalizedEngagement''"
  have n: "?n = JNumber (Num (if ?m > 0 then timeSpent_v1 d / ?m else 0))"
    using assms by (rule exportData_v1_normalized)
  have mem: "timeSpent_v1 d \<in> set ?ts" using assms(2) by force
  then have le: "timeSpent_v1 d \<le> ?m" by simp
  have one: "timeSpent_v1 d = ?m \<and> ?m > 0 \<longrightarrow> ?n = JNumber (Num 1)"
    using n by simp
  have rng: "(\<forall>kd \<in> set (engagementData_v1 s1). 0 \<le> timeSpent_v1 (snd kd))
             \<longrightarrow> (\<exists>x. ?n = JNumber (Num x) \<and> 0 \<le> x \<and> x \<le> 1)"
  proof
    assume "\<forall>kd \<in> set (engagementData_v1 s1). 0 \<le> timeSpent_v1 (snd kd)"
    then have "0 \<le> timeSpent_v1 d" using assms(2) by force
    then have "0 \<le> (if ?m > 0 then timeSpent_v1 d / ?m else 0)
               \<and> (if ?m > 0 then timeSpent_v1 d / ?m else 0) \<le> 1"
      using le by simp
    then show "\<exists>x. ?n = JNumber (Num x) \<and> 0 \<le> x \<and> x \<le> 1" using n by blast
  qed
  have k: "''normalizedEngagement'' \<notin> set exportKeys" by (simp add: exportKeys_def)
  show ?thesis
    using n one rng k exportData_keys [of now s] by (simp add: Let_def)
qed

theorem normalized_engagement_witness:
  "distinct (map fst (engagementData_v1 watched_v1))
   \<and> (''p-0'', \<lparr>element_v1 = para 0, timeSpent_v1 = 1000, inView_v1 = False,
                 lastViewTimestamp = None, index_v1 = 0\<rparr>) \<in> set (engagementData_v1 watched_v1)
   \<and> Max (set (map (\<lambda>kd. timeSpent_v1 (snd kd)) (engagementData_v1 watched_v1))) = 4000
   \<and> prop_of (entriesOf (prop_of (exportData_v1 watched_v1) ''p-0'')) ''normalizedEngagement''
      = JNumber (Num (1 / 4))"
proof -
  let ?d = "\<lparr>element_v1 = para 0, timeSpent_v1 = 1000, inView_v1 = False,
             lastViewTimestamp = None, index_v1 = 0\<rparr>"
  have h1: "distinct (map fst (engagementData_v1 watched_v1))"
    by (simp add: watched_v1_data)
  have h2: "(''p-0'', ?d) \<in> set (engagementData_v1 watched_v1)"
    by (simp add: watched_v1_data)
  have m: "Max (set (map (\<lambda>kd. timeSpent_v1 (snd kd)) (engagementData_v1 watched_v1))) = 4000"
    by (simp add: watched_v1_data)
  from normalized_engagement [OF h1 h2, of 0 watched] h1 h2 m
  show ?thesis by (simp add: Let_def)
qed

section \<open>C9: validation at construction\<close>

text \<open>
  C9, as stated, fails on the first version: its constructor (lines 4-9) refuses a negative
  \<open>minTimeThreshold\<close> and a negative \<open>samplingRate\<close> and nothing else. A \<open>samplingRate\<close>
  of 5000, outside \<open>[10, 1000]\<close>, is accepted and stored.
\<close>

theorem first_version_accepts_any_rate:
  "newTracker_v1 [(''samplingRate'', JNumber (Num 5000))] (\<lambda>e. None)
   = Inr (fresh_v1\<lparr>options_v1 :=
            [(''minTimeThreshold'', JNumber (Num 1000)), (''samplingRate'', JNumber (Num 5000)),
             (''heatmapContainer'', Null), (''heatmapHeight'', JNumber (Num 30)),
             (''colors'',
                JObject [(''low'', JString ''#C6E2FF''), (''medium'', JString ''#4F97FF''),
                         (''high'', JString ''#0047AB'')])]\<rparr>)"
  by (simp add: newTracker_v1_def orElse_def prop_of_def fresh_v1_def)

text \<open>
  C9, amended. A tracker of the second version exists only when \<open>validateOptions\<close> threw
  nothing, and then \<open>minTimeThreshold\<close>, \<open>samplingRate\<close> and \<open>visibilityThreshold\<close> are
  numbers, and as real numbers they are at least 0, in \<open>[10, 1000]\<close> and in \<open>[0, 1]\<close>.
  When the schema admits every option (the option is absent, or of its entry's type and,
  for a number, within the entry's bounds), the constructor returns a tracker that holds
  the numeric options and \<open>heatmapContainer\<close> as given, or their defaults where absent.
  Each violation has an error of its own, reported for the first option of the schema
  that is violated, whatever admitted values the options before it have: a \<open>RangeError\<close>
  naming the option and the bound for a number below 0, below 10, above 1000, below 0 or
  above 1; a \<open>TypeError\<close> naming the option for a value other than \<open>undefined\<close> and \<open>null\<close>
  that is no number (for the three numeric options) or no string (for
  \<open>heatmapContainer\<close>), and for a truthy \<open>colors\<close> that is no object. The first version's
  constructor refuses a negative \<open>minTimeThreshold\<close>, and with \<open>minTimeThreshold\<close> absent or
  a non-negative number it refuses a negative \<open>samplingRate\<close>, each with an error of its
  own, and accepts every positive \<open>samplingRate\<close>.
\<close>

theorem construction_validates:
  "(newTracker input dataset = Inr s \<longrightarrow>
      typeof (prop_of (options s) ''minTimeThreshold'') = ''number''
      \<and> (\<forall>x. prop_of (options s) ''minTimeThreshold'' = JNumber (Num x) \<longrightarrow> 0 \<le> x)
      \<and> typeof (prop_of (options s) ''samplingRate'') = ''number''
      \<and> (\<forall>x. prop_of (options s) ''samplingRate'' = JNumber (Num x) \<longrightarrow> 10 \<le> x \<and> x \<le> 1000)
      \<and> typeof (prop_of (options s) ''visibilityThreshold'') = ''number''
      \<and> (\<forall>x. prop_of (options s) ''visibilityThreshold'' = JNumber (Num x) \<longrightarrow> 0 \<le> x \<and> x \<le> 1))
   \<and> (admitted ia ''minTimeThreshold'' \<and> admitted ia ''samplingRate''
        \<and> admitted ia ''visibilityThreshold'' \<and> admitted ia ''colors''
        \<and> admitted ia ''heatmapContainer'' \<longrightarrow>
        (\<exists>sa. newTracker ia dataset = Inr sa
              \<and> prop_of (options sa) ''minTimeThreshold''
                  = (if prop_of ia ''minTimeThreshold'' = Undefined
                         \<or> prop_of ia ''minTimeThreshold'' = Null
                     then JNumber (Num 1000) else prop_of ia ''minTimeThreshold'')
              \<and> prop_of (options sa) ''samplingRate''
                  = (if prop_of ia ''samplingRate'' = Undefined \<or> prop_of ia ''samplingRate'' = Null
                     then JNumber (Num 200) else prop_of ia ''samplingRate'')
              \<and> prop_of (options sa) ''visibilityThreshold''
                  = (if prop_of ia ''visibilityThreshold'' = Undefined
                         \<or> prop_of ia ''visibilityThreshold'' = Null
                     then JNumber (Num (1 / 2)) else prop_of ia ''visibilityThreshold'')
              \<and> prop_of (options sa) ''heatmapContainer''
                  = (if prop_of ia ''heatmapContainer'' = Undefined
                         \<or> prop_of ia ''heatmapContainer'' = Null
                     then Null else prop_of ia ''heatmapContainer'')))
   \<and> (prop_of pa ''minTimeThreshold'' = JNumber (Num xa) \<and> xa < 0 \<longrightarrow>
        newTracker pa dataset = Inl (RangeError ''minTimeThreshold cannot be less than 0''))
   \<and> (admitted pb ''minTimeThreshold''
        \<and> prop_of pb ''samplingRate'' = JNumber (Num xb) \<and> xb < 10 \<longrightarrow>
        newTracker pb dataset = Inl (RangeError ''samplingRate cannot be less than 10''))
   \<and> (admitted pc ''minTimeThreshold''
        \<and> prop_of pc ''samplingRate'' = JNumber (Num xc) \<and> xc > 1000 \<longrightarrow>
        newTracker pc dataset = Inl (RangeError ''samplingRate cannot be greater than 1000''))
   \<and> (admitted pd ''minTimeThreshold''
        \<and> admitted pd ''samplingRate''
        \<and> prop_of pd ''visibilityThreshold'' = JNumber (Num xd) \<and> xd < 0 \<longrightarrow>
        newTracker pd dataset = Inl (RangeError ''visibilityThreshold cannot be less than 0''))
   \<and> (admitted pe ''minTimeThreshold''
        \<and> admitted pe ''samplingRate''
        \<and> prop_of pe ''visibilityThreshold'' = JNumber (Num xe) \<and> xe > 1 \<longrightarrow>
        newTracker pe dataset = Inl (RangeError ''visibilityThreshold cannot be greater than 1''))
   \<and> (prop_of qa ''minTimeThreshold'' = va \<and> va \<noteq> Undefined \<and> va \<noteq> Null
        \<and> typeof va \<noteq> ''number'' \<longrightarrow>
        newTracker qa dataset = Inl (TypeError ''minTimeThreshold must be number''))
   \<and> (admitted qb ''minTimeThreshold''
        \<and> prop_of qb ''samplingRate'' = vb \<and> vb \<noteq> Undefined \<and> vb \<noteq> Null
        \<and> typeof vb \<noteq> ''number'' \<longrightarrow>
        newTracker qb dataset = Inl (TypeError ''samplingRate must be number''))
   \<and> (admitted qc ''minTimeThreshold''
        \<and> admitted qc ''samplingRate''
        \<and> prop_of qc ''visibilityThreshold'' = vc \<and> vc \<noteq> Undefined \<and> vc \<noteq> Null
        \<and> typeof vc \<noteq> ''number'' \<longrightarrow>
        newTracker qc dataset = Inl (TypeError ''visibilityThreshold must be number''))
   \<and> (admitted qd ''minTimeThreshold''
        \<and> admitted qd ''samplingRate''
        \<and> admitted qd ''visibilityThreshold''
        \<and> prop_of qd ''colors'' = vd \<and> truthy vd
        \<and> typeof vd \<noteq> ''object'' \<longrightarrow>
        newTracker qd dataset = Inl (TypeError ''colors must be an object''))
   \<and> (admitted qe ''minTimeThreshold''
        \<and> admitted qe ''samplingRate''
        \<and> admitted qe ''visibilityThreshold''
        \<and> admitted qe ''colors''
        \<and> prop_of qe ''heatmapContainer'' = ve \<and> ve \<noteq> Undefined \<and> ve \<noteq> Null
        \<and> typeof ve \<noteq> ''string'' \<longrightarrow>
        newTracker qe dataset = Inl (TypeError ''heatmapContainer must be string''))
   \<and> (prop_of oa ''minTimeThreshold'' = JNumber (Num ya) \<and> ya < 0 \<longrightarrow>
        newTracker_v1 oa dataset = Inl (Error ''minTimeThreshold must be non-negative''))
   \<and> ((prop_of ob ''minTimeThreshold'' = Undefined
         \<or> prop_of ob ''minTimeThreshold'' = JNumber (Num zb) \<and> 0 \<le> zb)
        \<and> prop_of ob ''samplingRate'' = JNumber (Num yb) \<and> yb < 0 \<longrightarrow>
        newTracker_v1 ob dataset = Inl (Error ''samplingRate must be non-negative''))
   \<and> ((prop_of oc ''minTimeThreshold'' = Undefined
         \<or> prop_of oc ''minTimeThreshold'' = JNumber (Num zc) \<and> 0 \<le> zc)
        \<and> prop_of oc ''samplingRate'' = JNumber (Num yc) \<and> yc > 0 \<longrightarrow>
        (\<exists>s1. newTracker_v1 oc dataset = Inr s1
              \<and> prop_of (options_v1 s1) ''samplingRate'' = JNumber (Num yc)))"
proof -
  have ok: "newTracker input dataset = Inr s \<longrightarrow>
      typeof (prop_of (options s) ''minTimeThreshold'') = ''number''
      \<and> (\<forall>x. prop_of (options s) ''minTimeThreshold'' = JNumber (Num x) \<longrightarrow> 0 \<le> x)
      \<and> typeof (prop_of (options s) ''samplingRate'') = ''number''
      \<and> (\<forall>x. prop_of (options s) ''samplingRate'' = JNumber (Num x) \<longrightarrow> 10 \<le> x \<and> x \<le> 1000)
      \<and> typeof (prop_of (options s) ''visibilityThreshold'') = ''number''
      \<and> (\<forall>x. prop_of (options s) ''visibilityThreshold'' = JNumber (Num x) \<longrightarrow> 0 \<le> x \<and> x \<le> 1)"
    using newTracker_options [of input dataset s] by blast
  have good: "admitted ia ''minTimeThreshold'' \<and> admitted ia ''samplingRate''
        \<and> admitted ia ''visibilityThreshold'' \<and> admitted ia ''colors''
        \<and> admitted ia ''heatmapContainer'' \<longrightarrow>
        (\<exists>sa. newTracker ia dataset = Inr sa
              \<and> prop_of (options sa) ''minTimeThreshold''
                  = (if prop_of ia ''minTimeThreshold'' = Undefined
                         \<or> prop_of ia ''minTimeThreshold'' = Null
                     then JNumber (Num 1000) else prop_of ia ''minTimeThreshold'')
              \<and> prop_of (options sa) ''samplingRate''
                  = (if prop_of ia ''samplingRate'' = Undefined \<or> prop_of ia ''samplingRate'' = Null
                     then JNumber (Num 200) else prop_of ia ''samplingRate'')
              \<and> prop_of (options sa) ''visibilityThreshold''
                  = (if prop_of ia ''visibilityThreshold'' = Undefined
                         \<or> prop_of ia ''visibilityThreshold'' = Null
                     then JNumber (Num (1 / 2)) else prop_of ia ''visibilityThreshold'')
              \<and> prop_of (options sa) ''heatmapContainer''
                  = (if prop_of ia ''heatmapContainer'' = Undefined
                         \<or> prop_of ia ''heatmapContainer'' = Null
                     then Null else prop_of ia ''heatmapContainer''))"
    using newTracker_first(6) [of ia _ _ _ _ _ dataset] admitted_schema(1) [of ia]
      admitted_schema(2) [of ia] admitted_schema(3) [of ia] admitted_schema(4) [of ia]
      admitted_schema(5) [of ia]
    by (auto simp: initializeState_def prop_of_def)
  have ra: "prop_of pa ''minTimeThreshold'' = JNumber (Num xa) \<and> xa < 0 \<longrightarrow>
        newTracker pa dataset = Inl (RangeError ''minTimeThreshold cannot be less than 0'')"
    using newTracker_first(1) [of pa] violation_schema(1) [of pa xa]
    by auto
  have rb: "admitted pb ''minTimeThreshold''
        \<and> prop_of pb ''samplingRate'' = JNumber (Num xb) \<and> xb < 10 \<longrightarrow>
        newTracker pb dataset = Inl (RangeError ''samplingRate cannot be less than 10'')"
    using newTracker_first(2) [of pb] admitted_schema(1) [of pb] violation_schema(2) [of pb xb]
    by auto
  have rc: "admitted pc ''minTimeThreshold''
        \<and> prop_of pc ''samplingRate'' = JNumber (Num xc) \<and> xc > 1000 \<longrightarrow>
        newTracker pc dataset = Inl (RangeError ''samplingRate cannot be greater than 1000'')"
    using newTracker_first(2) [of pc] admitted_schema(1) [of pc] violation_schema(3) [of pc xc]
    by auto
  have rd: "admitted pd ''minTimeThreshold''
        \<and> admitted pd ''samplingRate''
        \<and> prop_of pd ''visibilityThreshold'' = JNumber (Num xd) \<and> xd < 0 \<longrightarrow>
        newTracker pd dataset = Inl (RangeError ''visibilityThreshold cannot be less than 0'')"
    using newTracker_first(3) [of pd] admitted_schema(1) [of pd] admitted_schema(2) [of pd] violation_schema(4) [of pd xd]
    by auto
  have re: "admitted pe ''minTimeThreshold''
        \<and> admitted pe ''samplingRate''
        \<and> prop_of pe ''visibilityThreshold'' = JNumber (Num xe) \<and> xe > 1 \<longrightarrow>
        newTracker pe dataset = Inl (RangeError ''visibilityThreshold cannot be greater than 1'')"
    using newTracker_first(3) [of pe] admitted_schema(1) [of pe] admitted_schema(2) [of pe] violation_schema(5) [of pe xe]
    by auto
  have ta: "prop_of qa ''minTimeThreshold'' = va \<and> va \<noteq> Undefined \<and> va \<noteq> Null
        \<and> typeof va \<noteq> ''number'' \<longrightarrow>
        newTracker qa dataset = Inl (TypeError ''minTimeThreshold must be number'')"
    using newTracker_first(1) [of qa] mistyped_schema(1) [of qa va]
    by auto
  have tb: "admitted qb ''minTimeThreshold''
        \<and> prop_of qb ''samplingRate'' = vb \<and> vb \<noteq> Undefined \<and> vb \<noteq> Null
        \<and> typeof vb \<noteq> ''number'' \<longrightarrow>
        newTracker qb dataset = Inl (TypeError ''samplingRate must be number'')"
    using newTracker_first(2) [of qb] admitted_schema(1) [of qb] mistyped_schema(2) [of qb vb]
    by auto
  have tc: "admitted qc ''minTimeThreshold''
        \<and> admitted qc ''samplingRate''
        \<and> prop_of qc ''visibilityThreshold'' = vc \<and> vc \<noteq> Undefined \<and> vc \<noteq> Null
        \<and> typeof vc \<noteq> ''number'' \<longrightarrow>
        newTracker qc dataset = Inl (TypeError ''visibilityThreshold must be number'')"
    using newTracker_first(3) [of qc] admitted_schema(1) [of qc] admitted_schema(2) [of qc] mistyped_schema(3) [of qc vc]
    by auto
  have td: "admitted qd ''minTimeThreshold''
        \<and> admitted qd ''samplingRate''
        \<and> admitted qd ''visibilityThreshold''
        \<and> prop_of qd ''colors'' = vd \<and> truthy vd
        \<and> typeof vd \<noteq> ''object'' \<longrightarrow>
        newTracker qd dataset = Inl (TypeError ''colors must be an object'')"
    using newTracker_first(4) [of qd] admitted_schema(1) [of qd] admitted_schema(2) [of qd] admitted_schema(3) [of qd] mistyped_schema(4) [of qd vd]
    by auto
  have te: "admitted qe ''minTimeThreshold''
        \<and> admitted qe ''samplingRate''
        \<and> admitted qe ''visibilityThreshold''
        \<and> admitted qe ''colors''
        \<and> prop_of qe ''heatmapContainer'' = ve \<and> ve \<noteq> Undefined \<and> ve \<noteq> Null
        \<and> typeof ve \<noteq> ''string'' \<longrightarrow>
        newTracker qe dataset = Inl (TypeError ''heatmapContainer must be string'')"
    using newTracker_first(5) [of qe] admitted_schema(1) [of qe] admitted_schema(2) [of qe] admitted_schema(3) [of qe] admitted_schema(4) [of qe] mistyped_schema(5) [of qe ve]
    by auto
  have oa: "prop_of oa ''minTimeThreshold'' = JNumber (Num ya) \<and> ya < 0 \<longrightarrow>
        newTracker_v1 oa dataset = Inl (Error ''minTimeThreshold must be non-negative'')"
    by (simp add: newTracker_v1_def)
  have ob: "(prop_of ob ''minTimeThreshold'' = Undefined
         \<or> prop_of ob ''minTimeThreshold'' = JNumber (Num zb) \<and> 0 \<le> zb)
        \<and> prop_of ob ''samplingRate'' = JNumber (Num yb) \<and> yb < 0 \<longrightarrow>
        newTracker_v1 ob dataset = Inl (Error ''samplingRate must be non-negative'')"
    by (auto simp: newTracker_v1_def)
  have oc: "(prop_of oc ''minTimeThreshold'' = Undefined
         \<or> prop_of oc ''minTimeThreshold'' = JNumber (Num zc) \<and> 0 \<le> zc)
        \<and> prop_of oc ''samplingRate'' = JNumber (Num yc) \<and> yc > 0 \<longrightarrow>
        (\<exists>s1. newTracker_v1 oc dataset = Inr s1
              \<and> prop_of (options_v1 s1) ''samplingRate'' = JNumber (Num yc))"
    by (auto simp: newTracker_v1_def orElse_def prop_of_def)
  show ?thesis
    using ok good ra rb rc rd re ta tb tc td te oa ob oc by blast
qed

theorem construction_validates_witness:
  "newTracker [] (\<lambda>e. None) = Inr fresh
   \<and> typeof (prop_of (options fresh) ''samplingRate'') = ''number''
   \<and> admitted [(''minTimeThreshold'', JNumber (Num 500)), (''samplingRate'', JNumber (Num 100)),
            (''visibilityThreshold'', JNumber (Num (1 / 4))),
            (''colors'', JObject [(''low'', JString ''#FFFFFF'')]),
            (''heatmapContainer'', JString ''#map'')] ''minTimeThreshold''
   \<and> admitted [(''minTimeThreshold'', JNumber (Num 500)), (''samplingRate'', JNumber (Num 100)),
            (''visibilityThreshold'', JNumber (Num (1 / 4))),
            (''colors'', JObject [(''low'', JString ''#FFFFFF'')]),
            (''heatmapContainer'', JString ''#map'')] ''samplingRate''
   \<and> admitted [(''minTimeThreshold'', JNumber (Num 500)), (''samplingRate'', JNumber (Num 100)),
            (''visibilityThreshold'', JNumber (Num (1 / 4))),
            (''colors'', JObject [(''low'', JString ''#FFFFFF'')]),
            (''heatmapContainer'', JString ''#map'')] ''visibilityThreshold''
   \<and> admitted [(''minTimeThreshold'', JNumber (Num 500)), (''samplingRate'', JNumber (Num 100)),
            (''visibilityThreshold'', JNumber (Num (1 / 4))),
            (''colors'', JObject [(''low'', JString ''#FFFFFF'')]),
            (''heatmapContainer'', JString ''#map'')] ''colors''
   \<and> admitted [(''minTimeThreshold'', JNumber (Num 500)), (''samplingRate'', JNumber (Num 100)),
            (''visibilityThreshold'', JNumber (Num (1 / 4))),
            (''colors'', JObject [(''low'', JString ''#FFFFFF'')]),
            (''heatmapContainer'', JString ''#map'')] ''heatmapContainer''
   \<and> (\<exists>sa. newTracker [(''minTimeThreshold'', JNumber (Num 500)),
            (''samplingRate'', JNumber (Num 100)), (''visibilityThreshold'', JNumber (Num (1 / 4))),
            (''colors'', JObject [(''low'', JString ''#FFFFFF'')]),
            (''heatmapContainer'', JString ''#map'')] (\<lambda>e. None) = Inr sa
         \<and> prop_of (options sa) ''minTimeThreshold'' = JNumber (Num 500)
         \<and> prop_of (options sa) ''samplingRate'' = JNumber (Num 100)
         \<and> prop_of (options sa) ''visibilityThreshold'' = JNumber (Num (1 / 4))
         \<and> prop_of (options sa) ''heatmapContainer'' = JString ''#map'')
   \<and> newTracker [(''minTimeThreshold'', JNumber (Num (- 1)))] (\<lambda>e. None)
     = Inl (RangeError ''minTimeThreshold cannot be less than 0'')
   \<and> newTracker [(''minTimeThreshold'', JNumber (Num 500)),
            (''samplingRate'', JNumber (Num 5))] (\<lambda>e. None)
     = Inl (RangeError ''samplingRate cannot be less than 10'')
   \<and> newTracker [(''minTimeThreshold'', JNumber (Num 0)),
            (''samplingRate'', JNumber (Num 5000))] (\<lambda>e. None)
     = Inl (RangeError ''samplingRate cannot be greater than 1000'')
   \<and> newTracker [(''minTimeThreshold'', JNumber (Num 500)),
            (''samplingRate'', JNumber (Num 100)),
            (''visibilityThreshold'', JNumber (Num (- (1 / 2))))] (\<lambda>e. None)
     = Inl (RangeError ''visibilityThreshold cannot be less than 0'')
   \<and> newTracker [(''samplingRate'', JNumber (Num 1000)),
            (''visibilityThreshold'', JNumber (Num 2))] (\<lambda>e. None)
     = Inl (RangeError ''visibilityThreshold cannot be greater than 1'')
   \<and> newTracker [(''minTimeThreshold'', JString ''1000'')] (\<lambda>e. None)
     = Inl (TypeError ''minTimeThreshold must be number'')
   \<and> newTracker [(''minTimeThreshold'', JNumber (Num 500)),
            (''samplingRate'', JBool True)] (\<lambda>e. None)
     = Inl (TypeError ''samplingRate must be number'')
   \<and> newTracker [(''minTimeThreshold'', JNumber (Num 500)),
            (''samplingRate'', JNumber (Num 100)),
            (''visibilityThreshold'', JString ''half'')] (\<lambda>e. None)
     = Inl (TypeError ''visibilityThreshold must be number'')
   \<and> newTracker [(''minTimeThreshold'', JNumber (Num 500)),
            (''samplingRate'', JNumber (Num 100)), (''visibilityThreshold'', JNumber (Num (1 / 4))),
            (''colors'', JString ''blue'')] (\<lambda>e. None)
     = Inl (TypeError ''colors must be an object'')
   \<and> newTracker [(''minTimeThreshold'', JNumber (Num 500)),
            (''samplingRate'', JNumber (Num 100)), (''visibilityThreshold'', JNumber (Num (1 / 4))),
            (''colors'', JObject [(''low'', JString ''#FFFFFF'')]),
            (''heatmapContainer'', JNumber (Num 5))] (\<lambda>e. None)
     = Inl (TypeError ''heatmapContainer must be string'')
   \<and> newTracker_v1 [(''minTimeThreshold'', JNumber (Num (- 1)))] (\<lambda>e. None)
     = Inl (Error ''minTimeThreshold must be non-negative'')
   \<and> newTracker_v1 [(''minTimeThreshold'', JNumber (Num 500)),
            (''samplingRate'', JNumber (Num (- 5)))] (\<lambda>e. None)
     = Inl (Error ''samplingRate must be non-negative'')
   \<and> (\<exists>s1. newTracker_v1 [(''minTimeThreshold'', JNumber (Num 500)),
            (''samplingRate'', JNumber (Num 200))] (\<lambda>e. None) = Inr s1
         \<and> prop_of (options_v1 s1) ''samplingRate'' = JNumber (Num 200))"
proof -
  have h: "newTracker [] (\<lambda>e. None) = Inr fresh"
    by (simp add: ctor_evals prop_of_def fresh_def defaultOptions_def)
  have a:
    "admitted [(''minTimeThreshold'', JNumber (Num 500)), (''samplingRate'', JNumber (Num 100)),
             (''visibilityThreshold'', JNumber (Num (1 / 4))),
             (''colors'', JObject [(''low'', JString ''#FFFFFF'')]),
             (''heatmapContainer'', JString ''#map'')] ''minTimeThreshold''"
    "admitted [(''minTimeThreshold'', JNumber (Num 500)), (''samplingRate'', JNumber (Num 100)),
             (''visibilityThreshold'', JNumber (Num (1 / 4))),
             (''colors'', JObject [(''low'', JString ''#FFFFFF'')]),
             (''heatmapContainer'', JString ''#map'')] ''samplingRate''"
    "admitted [(''minTimeThreshold'', JNumber (Num 500)), (''samplingRate'', JNumber (Num 100)),
             (''visibilityThreshold'', JNumber (Num (1 / 4))),
             (''colors'', JObject [(''low'', JString ''#FFFFFF'')]),
             (''heatmapContainer'', JString ''#map'')] ''visibilityThreshold''"
    "admitted [(''minTimeThreshold'', JNumber (Num 500)), (''samplingRate'', JNumber (Num 100)),
             (''visibilityThreshold'', JNumber (Num (1 / 4))),
             (''colors'', JObject [(''low'', JString ''#FFFFFF'')]),
             (''heatmapContainer'', JString ''#map'')] ''colors''"
    "admitted [(''minTimeThreshold'', JNumber (Num 500)), (''samplingRate'', JNumber (Num 100)),
             (''visibilityThreshold'', JNumber (Num (1 / 4))),
             (''colors'', JObject [(''low'', JString ''#FFFFFF'')]),
             (''heatmapContainer'', JString ''#map'')] ''heatmapContainer''"
    "admitted [(''minTimeThreshold'', JNumber (Num 500)),
             (''samplingRate'', JNumber (Num 5))] ''minTimeThreshold''"
    "admitted [(''minTimeThreshold'', JNumber (Num 0)),
             (''samplingRate'', JNumber (Num 5000))] ''minTimeThreshold''"
    "admitted [(''minTimeThreshold'', JNumber (Num 500)), (''samplingRate'', JNumber (Num 100)),
             (''visibilityThreshold'', JNumber (Num (- (1 / 2))))] ''minTimeThreshold''"
    "admitted [(''minTimeThreshold'', JNumber (Num 500)), (''samplingRate'', JNumber (Num 100)),
             (''visibilityThreshold'', JNumber (Num (- (1 / 2))))] ''samplingRate''"
    "admitted [(''samplingRate'', JNumber (Num 1000)),
             (''visibilityThreshold'', JNumber (Num 2))] ''minTimeThreshold''"
    "admitted [(''samplingRate'', JNumber (Num 1000)),
             (''visibilityThreshold'', JNumber (Num 2))] ''samplingRate''"
    "admitted [(''minTimeThreshold'', JNumber (Num 500)),
             (''samplingRate'', JBool True)] ''minTimeThreshold''"
    "admitted [(''minTimeThreshold'', JNumber (Num 500)), (''samplingRate'', JNumber (Num 100)),
             (''visibilityThreshold'', JString ''half'')] ''minTimeThreshold''"
    "admitted [(''minTimeThreshold'', JNumber (Num 500)), (''samplingRate'', JNumber (Num 100)),
             (''visibilityThreshold'', JString ''half'')] ''samplingRate''"
    "admitted [(''minTimeThreshold'', JNumber (Num 500)), (''samplingRate'', JNumber (Num 100)),
             (''visibilityThreshold'', JNumber (Num (1 / 4))),
             (''colors'', JString ''blue'')] ''minTimeThreshold''"
    "admitted [(''minTimeThreshold'', JNumber (Num 500)), (''samplingRate'', JNumber (Num 100)),
             (''visibilityThreshold'', JNumber (Num (1 / 4))),
             (''colors'', JString ''blue'')] ''samplingRate''"
    "admitted [(''minTimeThreshold'', JNumber (Num 500)), (''samplingRate'', JNumber (Num 100)),
             (''visibilityThreshold'', JNumber (Num (1 / 4))),
             (''colors'', JString ''blue'')] ''visibilityThreshold''"
    "admitted [(''minTimeThreshold'', JNumber (Num 500)), (''samplingRate'', JNumber (Num 100)),
             (''visibilityThreshold'', JNumber (Num (1 / 4))),
             (''colors'', JObject [(''low'', JString ''#FFFFFF'')]),
             (''heatmapContainer'', JNumber (Num 5))] ''minTimeThreshold''"
    "admitted [(''minTimeThreshold'', JNumber (Num 500)), (''samplingRate'', JNumber (Num 100)),
             (''visibilityThreshold'', JNumber (Num (1 / 4))),
             (''colors'', JObject [(''low'', JString ''#FFFFFF'')]),
             (''heatmapContainer'', JNumber (Num 5))] ''samplingRate''"
    "admitted [(''minTimeThreshold'', JNumber (Num 500)), (''samplingRate'', JNumber (Num 100)),
             (''visibilityThreshold'', JNumber (Num (1 / 4))),
             (''colors'', JObject [(''low'', JString ''#FFFFFF'')]),
             (''heatmapContainer'', JNumber (Num 5))] ''visibilityThreshold''"
    "admitted [(''minTimeThreshold'', JNumber (Num 500)), (''samplingRate'', JNumber (Num 100)),
             (''visibilityThreshold'', JNumber (Num (1 / 4))),
             (''colors'', JObject [(''low'', JString ''#FFFFFF'')]),
             (''heatmapContainer'', JNumber (Num 5))] ''colors''"
    by (simp_all add: admitted_def validationSchema_def prop_of_def)
  from construction_validates
    [where input = "[]"
       and s = "fresh"
       and dataset = "\<lambda>e. None"
       and ia = "[(''minTimeThreshold'', JNumber (Num 500)), (''samplingRate'', JNumber (Num 100)),
                (''visibilityThreshold'', JNumber (Num (1 / 4))),
                (''colors'', JObject [(''low'', JString ''#FFFFFF'')]),
                (''heatmapContainer'', JString ''#map'')]"
       and pa = "[(''minTimeThreshold'', JNumber (Num (- 1)))]"
       and pb = "[(''minTimeThreshold'', JNumber (Num 500)), (''samplingRate'', JNumber (Num 5))]"
       and pc = "[(''minTimeThreshold'', JNumber (Num 0)), (''samplingRate'', JNumber (Num 5000))]"
       and pd = "[(''minTimeThreshold'', JNumber (Num 500)), (''samplingRate'', JNumber (Num 100)),
                (''visibilityThreshold'', JNumber (Num (- (1 / 2))))]"
       and pe = "[(''samplingRate'', JNumber (Num 1000)),
                (''visibilityThreshold'', JNumber (Num 2))]"
       and qa = "[(''minTimeThreshold'', JString ''1000'')]"
       and qb = "[(''minTimeThreshold'', JNumber (Num 500)), (''samplingRate'', JBool True)]"
       and qc = "[(''minTimeThreshold'', JNumber (Num 500)), (''samplingRate'', JNumber (Num 100)),
                (''visibilityThreshold'', JString ''half'')]"
       and qd = "[(''minTimeThreshold'', JNumber (Num 500)), (''samplingRate'', JNumber (Num 100)),
                (''visibilityThreshold'', JNumber (Num (1 / 4))), (''colors'', JString ''blue'')]"
       and qe = "[(''minTimeThreshold'', JNumber (Num 500)), (''samplingRate'', JNumber (Num 100)),
                (''visibilityThreshold'', JNumber (Num (1 / 4))),
                (''colors'', JObject [(''low'', JString ''#FFFFFF'')]),
                (''heatmapContainer'', JNumber (Num 5))]"
       and oa = "[(''minTimeThreshold'', JNumber (Num (- 1)))]"
       and ob = "[(''minTimeThreshold'', JNumber (Num 500)),
                (''samplingRate'', JNumber (Num (- 5)))]"
       and oc = "[(''minTimeThreshold'', JNumber (Num 500)), (''samplingRate'', JNumber (Num 200))]"
       and xa = "- 1"
       and xb = "5"
       and xc = "5000"
       and xd = "- (1 / 2)"
       and xe = "2"
       and va = "JString ''1000''"
       and vb = "JBool True"
       and vc = "JString ''half''"
       and vd = "JString ''blue''"
       and ve = "JNumber (Num 5)"
       and ya = "- 1"
       and yb = "- 5"
       and yc = "200"
       and zb = "500"
       and zc = "500"]
  show ?thesis using h a by (simp add: prop_of_def)
qed

section \<open>C10: exceptions of the teardown\<close>

text \<open>
  C10, as stated, fails: the \<open>catch\<close> of \<open>destroy\<close> (lines 1106-1108) reports through
  \<open>this.emit('error', ...)\<close>, and an emitter with no \<open>'error'\<close> listener throws that event.
  With a \<open>'destroyed'\<close> listener that throws and no \<open>'error'\<close> listener, \<open>destroy\<close> ends
  with the emitter's exception.
\<close>

theorem destroy_throws_unheard:
  "fst (destroy (\<lambda>c. False) (addListener ''destroyed'' Throws watched)) = Some UnhandledError"
  by (simp add: watched_eq destroy_evals)

text \<open>
  C10, amended. \<open>destroy\<close> lets no exception out when an \<open>'error'\<close> listener is registered
  and none of the \<open>'error'\<close> listeners throws. When its teardown throws nothing, nothing
  leaves \<open>destroy\<close> and \<open>'destroyed'\<close> is the last event emitted. When its teardown throws
  (stopping, disconnecting an observer, removing listeners or the heatmap, or a listener
  of \<open>'trackingStopped'\<close> or \<open>'destroyed'\<close>), an \<open>'error'\<close> event is emitted if an \<open>'error'\<close>
  listener is registered, and otherwise the emitter's exception for an unhandled
  \<open>'error'\<close> event leaves \<open>destroy\<close>.
\<close>

theorem destroy_reports:
  "(listeners s ''error'' \<noteq> [] \<and> Throws \<notin> set (listeners s ''error'')
      \<longrightarrow> fst (destroy faulty s) = None)
   \<and> (fst (destroyBody fb sb) = None
        \<longrightarrow> fst (destroy fb sb) = None \<and> last (emitted (snd (destroy fb sb))) = ''destroyed'')
   \<and> (fst (destroyBody fc sc) \<noteq> None \<and> listeners sc ''error'' \<noteq> []
        \<longrightarrow> last (emitted (snd (destroy fc sc))) = ''error'')
   \<and> (fst (destroyBody fd sd) \<noteq> None \<and> listeners sd ''error'' = []
        \<longrightarrow> fst (destroy fd sd) = Some UnhandledError)"
proof -
  have split: "destroy f t = (if fst (destroyBody f t) = None then destroyBody f t
                              else emit ''error'' (snd (destroyBody f t)))" for f t
    by (cases "destroyBody f t") (auto simp: destroy_def split: option.splits)
  have a: "listeners s ''error'' \<noteq> [] \<and> Throws \<notin> set (listeners s ''error'')
           \<longrightarrow> fst (destroy faulty s) = None"
    using emit_error_heard [of "snd (destroyBody faulty s)"]
    by (simp add: split destroyBody_listeners)
  have b: "fst (destroyBody fb sb) = None
           \<longrightarrow> fst (destroy fb sb) = None \<and> last (emitted (snd (destroy fb sb))) = ''destroyed''"
    using destroyBody_success [of fb sb] by (simp add: split)
  have c: "fst (destroyBody fc sc) \<noteq> None \<and> listeners sc ''error'' \<noteq> []
           \<longrightarrow> last (emitted (snd (destroy fc sc))) = ''error''"
    using emit_error_heard [of "snd (destroyBody fc sc)"]
    by (simp add: split destroyBody_listeners)
  have d: "fst (destroyBody fd sd) \<noteq> None \<and> listeners sd ''error'' = []
           \<longrightarrow> fst (destroy fd sd) = Some UnhandledError"
    using emit_error_unheard [of "snd (destroyBody fd sd)"]
    by (simp add: split destroyBody_listeners)
  show ?thesis using a b c d by blast
qed

theorem destroy_reports_witness:
  "listeners (addListener ''error'' Returns (addListener ''destroyed'' Throws watched)) ''error'' \<noteq> []
   \<and> Throws \<notin> set (listeners (addListener ''error'' Returns
                                  (addListener ''destroyed'' Throws watched)) ''error'')
   \<and> fst (destroy (\<lambda>c. False)
             (addListener ''error'' Returns (addListener ''destroyed'' Throws watched))) = None
   \<and> fst (destroyBody (\<lambda>c. False) watched) = None
   \<and> last (emitted (snd (destroy (\<lambda>c. False) watched))) = ''destroyed''
   \<and> fst (destroyBody (\<lambda>c. c = DisconnectObserver) (addListener ''error'' Returns watched)) \<noteq> None
   \<and> last (emitted (snd (destroy (\<lambda>c. c = DisconnectObserver)
                              (addListener ''error'' Returns watched)))) = ''error''
   \<and> fst (destroyBody (\<lambda>c. c = DisconnectObserver) watched) \<noteq> None
   \<and> listeners watched ''error'' = []
   \<and> fst (destroy (\<lambda>c. c = DisconnectObserver) watched) = Some UnhandledError"
proof -
  let ?heard = "addListener ''error'' Returns (addListener ''destroyed'' Throws watched)"
  let ?obs = "\<lambda>c. c = DisconnectObserver"
  have a: "listeners ?heard ''error'' \<noteq> []" "Throws \<notin> set (listeners ?heard ''error'')"
    by (simp_all add: watched_eq addListener_def)
  have b: "fst (destroyBody (\<lambda>c. False) watched) = None"
    by (simp add: watched_eq destroy_evals)
  have c: "fst (destroyBody ?obs (addListener ''error'' Returns watched)) \<noteq> None"
    "listeners (addListener ''error'' Returns watched) ''error'' \<noteq> []"
    by (simp_all add: watched_eq destroy_evals)
  have d: "fst (destroyBody ?obs watched) \<noteq> None" "listeners watched ''error'' = []"
    by (simp_all add: watched_eq destroy_evals)
  from destroy_reports [of ?heard "\<lambda>c. False" "\<lambda>c. False" watched ?obs
      "addListener ''error'' Returns watched" ?obs watched]
  show ?thesis using a b c d by blast
qed

end
